theory Spec2Isabelle
  imports Main "HOL-Library.Sublist"
begin

section \<open>Python text\<close>

text \<open>
  A Python \<open>str\<close> is a sequence of Unicode code points, and the program indexes, slices
  and counts by code point (the combining marks it emits lie beyond one byte). A text is
  therefore a list of code points; \<open>lit\<close> embeds an ASCII literal.
\<close>

type_synonym pystr = "nat list"

definition lit :: "string \<Rightarrow> pystr" where
  "lit s = map (of_char :: char \<Rightarrow> nat) s"

text \<open>
  Two tables of the Unicode database are used by \<open>str.upper\<close> and \<open>int\<close>: the full
  uppercase mapping and the decimal digit value. On ASCII both are written out below;
  beyond ASCII they are taken as a parameter, so that every theorem holds for whatever
  the interpreter's tables say there.
\<close>

record unicode_db =
  upper_ext :: "nat \<Rightarrow> nat list"
  decimal_ext :: "nat \<Rightarrow> nat option"

definition ascii_db :: unicode_db where
  "ascii_db = \<lparr>upper_ext = (\<lambda>c. [c]), decimal_ext = (\<lambda>c. None)\<rparr>"

definition upper_char :: "unicode_db \<Rightarrow> nat \<Rightarrow> nat list" where
  "upper_char db c =
     (if 97 \<le> c \<and> c \<le> 122 then [c - 32]
      else if c < 128 then [c]
      else upper_ext db c)"

text \<open>\<open>s.upper()\<close>: the uppercase mapping of each code point, in order.\<close>

definition py_upper :: "unicode_db \<Rightarrow> pystr \<Rightarrow> pystr" where
  "py_upper db s = concat (map (upper_char db) s)"

text \<open>The code points that \<open>str.strip\<close>, \<open>str.split\<close> and \<open>str.isspace\<close> treat as whitespace.\<close>

definition py_isspace :: "nat \<Rightarrow> bool" where
  "py_isspace c =
     ((9 \<le> c \<and> c \<le> 13) \<or> (28 \<le> c \<and> c \<le> 32) \<or> c = 133 \<or> c = 160 \<or> c = 5760
      \<or> (8192 \<le> c \<and> c \<le> 8202) \<or> c = 8232 \<or> c = 8233 \<or> c = 8239 \<or> c = 8287
      \<or> c = 12288)"

text \<open>\<open>s.strip()\<close>\<close>

definition py_strip :: "pystr \<Rightarrow> pystr" where
  "py_strip s = rev (dropWhile py_isspace (rev (dropWhile py_isspace s)))"

text \<open>\<open>s.split()\<close>: the maximal runs of non-whitespace, in order; \<open>cur\<close> is the run being read.\<close>

fun split_ws :: "pystr \<Rightarrow> pystr \<Rightarrow> pystr list" where
  "split_ws cur [] = (if cur = [] then [] else [cur])"
| "split_ws cur (c # cs) =
     (if py_isspace c then (if cur = [] then split_ws [] cs else cur # split_ws [] cs)
      else split_ws (cur @ [c]) cs)"

definition py_split :: "pystr \<Rightarrow> pystr list" where
  "py_split s = split_ws [] s"

text \<open>\<open>s.split(sep)\<close> for a separator of one code point: never empty.\<close>

fun split_on :: "nat \<Rightarrow> pystr \<Rightarrow> pystr \<Rightarrow> pystr list" where
  "split_on sep cur [] = [cur]"
| "split_on sep cur (c # cs) =
     (if c = sep then cur # split_on sep [] cs else split_on sep (cur @ [c]) cs)"

definition py_split_sep :: "nat \<Rightarrow> pystr \<Rightarrow> pystr list" where
  "py_split_sep sep s = split_on sep [] s"

text \<open>\<open>pat in s\<close>\<close>

fun py_in :: "pystr \<Rightarrow> pystr \<Rightarrow> bool" where
  "py_in pat [] = (pat = [])"
| "py_in pat (c # cs) = (prefix pat (c # cs) \<or> py_in pat cs)"

text \<open>\<open>s.replace(pat, '')\<close>: the occurrences of \<open>pat\<close> are removed from left to right, without overlap.\<close>

fun py_remove :: "pystr \<Rightarrow> pystr \<Rightarrow> pystr" where
  "py_remove pat [] = []"
| "py_remove pat (c # cs) =
     (if pat \<noteq> [] \<and> prefix pat (c # cs) then py_remove pat (drop (length pat) (c # cs))
      else c # py_remove pat cs)"

text \<open>The exceptions the program can raise: \<open>ValueError\<close> carries its message.\<close>

datatype error = ValueError pystr | IndexError

text \<open>\<open>sep.join(xs)\<close>\<close>

fun py_join :: "pystr \<Rightarrow> pystr list \<Rightarrow> pystr" where
  "py_join sep [] = []"
| "py_join sep [x] = x"
| "py_join sep (x # y # ys) = x @ sep @ py_join sep (y # ys)"

text \<open>
  The decimal text of an integer: its digits, with a minus sign when negative. This is
  what \<open>str(n)\<close> returns for a number that counts or indexes the elements of a list.
\<close>

fun str_nat :: "nat \<Rightarrow> pystr" where
  "str_nat n = (if n < 10 then [48 + n] else str_nat (n div 10) @ [48 + n mod 10])"

declare str_nat.simps [simp del]

definition py_str :: "int \<Rightarrow> pystr" where
  "py_str i = (if i < 0 then 45 # str_nat (nat (- i)) else str_nat (nat i))"

text \<open>
  The interpreter converts between an integer and its decimal text only up to
  \<open>sys.get_int_max_str_digits()\<close> digits, 4300 unless the limit is reconfigured; the sign
  is not counted. Beyond it \<open>str(n)\<close>, and an f-string showing \<open>n\<close> or a list holding
  \<open>n\<close>, raise \<open>ValueError\<close> with the message \<open>msg_str_limit\<close>, and \<open>int(s)\<close> raises
  \<open>ValueError\<close> too. \<open>py_format\<close> is the conversion of an arbitrary integer to text
  under that limit. A number of elements of a list in memory is far below the limit, and
  its text is taken with \<open>py_str\<close>.
\<close>

definition int_max_str_digits :: nat where
  "int_max_str_digits = 4300"

definition msg_str_limit :: pystr where
  "msg_str_limit =
     lit ''Exceeds the limit (4300 digits) for integer string conversion; ''
       @ lit ''use sys.set_int_max_str_digits() to increase the limit''"

definition exceeds_str_limit :: "int \<Rightarrow> bool" where
  "exceeds_str_limit i = (int_max_str_digits < length (str_nat (nat \<bar>i\<bar>)))"

definition py_format :: "int \<Rightarrow> error + pystr" where
  "py_format i = (if exceeds_str_limit i then Inl (ValueError msg_str_limit) else Inr (py_str i))"

text \<open>The texts of the integers of a list, in order; the first that fails raises.\<close>

fun py_format_all :: "int list \<Rightarrow> error + pystr list" where
  "py_format_all [] = Inr []"
| "py_format_all (i # rest) =
     (case py_format i of
        Inl e \<Rightarrow> Inl e
      | Inr d \<Rightarrow> (case py_format_all rest of Inl e \<Rightarrow> Inl e | Inr ds \<Rightarrow> Inr (d # ds)))"

text \<open>
  \<open>raise ValueError(m)\<close> where the message \<open>m\<close> is an f-string: the error raised is
  the one of the formatting when that fails.
\<close>

fun raise_ValueError :: "error + pystr \<Rightarrow> error" where
  "raise_ValueError (Inl e) = e"
| "raise_ValueError (Inr m) = ValueError m"

text \<open>
  \<open>int(s)\<close> on a text: surrounding whitespace is skipped, one sign is allowed, and the
  digits may be separated by single underscores. The whitespace skipped here is the ASCII
  whitespace of C together with the Unicode whitespace beyond ASCII; the code points 28 to
  31 are not skipped. A text with more digits than the limit (underscores, sign and
  whitespace are not counted, leading zeros are) raises \<open>ValueError\<close> like a text that
  is not a number. \<open>None\<close> stands for \<open>ValueError\<close>.
\<close>

definition int_space :: "nat \<Rightarrow> bool" where
  "int_space c = ((9 \<le> c \<and> c \<le> 13) \<or> c = 32 \<or> (128 \<le> c \<and> py_isspace c))"

definition digit_val :: "unicode_db \<Rightarrow> nat \<Rightarrow> nat option" where
  "digit_val db c =
     (if 48 \<le> c \<and> c \<le> 57 then Some (c - 48)
      else if c < 128 then None
      else decimal_ext db c)"

fun digits_val :: "unicode_db \<Rightarrow> nat \<Rightarrow> pystr \<Rightarrow> nat option" where
  "digits_val db acc [] = Some acc"
| "digits_val db acc [c] =
     (case digit_val db c of None \<Rightarrow> None | Some v \<Rightarrow> Some (10 * acc + v))"
| "digits_val db acc (c # d # ds) =
     (if c = 95 then
        (case digit_val db d of None \<Rightarrow> None | Some v \<Rightarrow> digits_val db (10 * acc + v) ds)
      else
        (case digit_val db c of None \<Rightarrow> None | Some v \<Rightarrow> digits_val db (10 * acc + v) (d # ds)))"

definition unsigned_val :: "unicode_db \<Rightarrow> pystr \<Rightarrow> int option" where
  "unsigned_val db s =
     (case s of [] \<Rightarrow> None
      | c # cs \<Rightarrow> (case digit_val db c of None \<Rightarrow> None
                   | Some v \<Rightarrow>
                       if int_max_str_digits < length (filter (\<lambda>c. c \<noteq> 95) s) then None
                       else map_option int (digits_val db v cs)))"

definition py_int :: "unicode_db \<Rightarrow> pystr \<Rightarrow> int option" where
  "py_int db s =
     (case rev (dropWhile int_space (rev (dropWhile int_space s))) of
        [] \<Rightarrow> None
      | c # cs \<Rightarrow>
          if c = 43 then unsigned_val db cs
          else if c = 45 then map_option uminus (unsigned_val db cs)
          else unsigned_val db (c # cs))"


section \<open>Notes (notation\_engine.py)\<close>

definition COMBINING_DOT_ABOVE :: nat where "COMBINING_DOT_ABOVE = 775"
definition COMBINING_DOT_BELOW :: nat where "COMBINING_DOT_BELOW = 803"
definition COMBINING_UNDERLINE :: nat where "COMBINING_UNDERLINE = 818"
definition COMBINING_VERTICAL_LINE_ABOVE :: nat where "COMBINING_VERTICAL_LINE_ABOVE = 781"

record Note =
  base :: pystr
  komal :: bool
  tivra :: bool
  octave :: int

definition valid_bases :: "pystr list" where
  "valid_bases = [lit ''SA'', lit ''RE'', lit ''GA'', lit ''MA'', lit ''PA'', lit ''DHA'', lit ''NI'']"

definition komal_bases :: "pystr list" where
  "komal_bases = [lit ''RE'', lit ''GA'', lit ''DHA'', lit ''NI'']"

text \<open>
  How an f-string shows a list of plain strings: each in single quotes (code point 39),
  separated by a comma and a space, in square brackets.
\<close>

definition py_repr_strs :: "pystr list \<Rightarrow> pystr" where
  "py_repr_strs xs = [91] @ py_join (lit '', '') (map (\<lambda>s. [39] @ s @ [39]) xs) @ [93]"

text \<open>
  The five messages of \<open>Note.validate\<close>, one for each rule. The message of the octave
  rule shows the octave, an arbitrary integer, and raises when that cannot be shown.
\<close>

definition msg_base :: "pystr \<Rightarrow> pystr" where
  "msg_base b =
     lit ''Invalid base note '' @ [39] @ b @ [39] @ lit ''. Must be one of ''
       @ py_repr_strs valid_bases"

definition msg_komal :: "pystr \<Rightarrow> pystr" where
  "msg_komal b = [39] @ b @ [39] @ lit '' cannot be komal. Only RE, GA, DHA, NI can be komal''"

definition msg_tivra :: "pystr \<Rightarrow> pystr" where
  "msg_tivra b = [39] @ b @ [39] @ lit '' cannot be tivra. Only MA can be tivra''"

definition msg_both :: pystr where
  "msg_both = lit ''Note cannot be both komal and tivra''"

definition msg_octave :: "int \<Rightarrow> error + pystr" where
  "msg_octave n =
     (case py_format n of
        Inl e \<Rightarrow> Inl e
      | Inr d \<Rightarrow> Inr (lit ''Octave '' @ d @ lit '' out of range. Must be between -3 and +3''))"

text \<open>
  \<open>Note.validate\<close>: every check runs, each appends its message when its rule is broken;
  the call raises when the last message cannot be formatted.
\<close>

definition validate :: "Note \<Rightarrow> error + pystr list" where
  "validate self =
     (let errors =
        (if base self \<notin> set valid_bases then [msg_base (base self)] else [])
        @ (if komal self \<and> base self \<notin> set komal_bases then [msg_komal (base self)] else [])
        @ (if tivra self \<and> base self \<noteq> lit ''MA'' then [msg_tivra (base self)] else [])
        @ (if komal self \<and> tivra self then [msg_both] else [])
      in if \<not> (- 3 \<le> octave self \<and> octave self \<le> 3) then
           (case msg_octave (octave self) of
              Inl e \<Rightarrow> Inl e
            | Inr m \<Rightarrow> Inr (errors @ [m]))
         else Inr errors)"

text \<open>
  The constructor \<open>Note(base, komal, tivra, octave)\<close> with its \<open>__post_init__\<close>: the
  base is uppercased, then validated; any message makes the construction raise, and an
  error raised by the validation is not caught.
\<close>

definition Note_init :: "unicode_db \<Rightarrow> pystr \<Rightarrow> bool \<Rightarrow> bool \<Rightarrow> int \<Rightarrow> error + Note" where
  "Note_init db b k t n =
     (let self = \<lparr>base = py_upper db b, komal = k, tivra = t, octave = n\<rparr>
      in case validate self of
           Inl e \<Rightarrow> Inl e
         | Inr errors \<Rightarrow>
             if errors \<noteq> [] then
               Inl (ValueError (lit ''Invalid note: '' @ py_join (lit '', '') errors))
             else Inr self)"

text \<open>
  \<open>Note.to_notation\<close>. \<open>result[0]\<close> and \<open>result[-1]\<close> raise \<open>IndexError\<close> on an empty
  string; the slices \<open>result[1:]\<close> and \<open>result[:-1]\<close> never raise.
\<close>

definition to_notation :: "Note \<Rightarrow> error + pystr" where
  "to_notation self =
     (let result = base self;
          result = (if komal self
                    then concat (map (\<lambda>char. [char, COMBINING_UNDERLINE]) result)
                    else result)
      in case (if tivra self
               then (case result of
                       [] \<Rightarrow> Inl IndexError
                     | c # rest \<Rightarrow> Inr (c # COMBINING_VERTICAL_LINE_ABOVE # rest))
               else Inr result) of
           Inl e \<Rightarrow> Inl e
         | Inr result \<Rightarrow>
             if octave self > 0 then
               (if result = [] then Inl IndexError
                else Inr (butlast result @ [last result]
                          @ replicate (nat (octave self)) COMBINING_DOT_ABOVE))
             else if octave self < 0 then
               (if result = [] then Inl IndexError
                else Inr (butlast result @ [last result]
                          @ replicate (nat (abs (octave self))) COMBINING_DOT_BELOW))
             else Inr result)"

text \<open>
  \<open>NotationParser.parse_note_spec\<close>. \<open>parts[0]\<close> always exists, since a split on a
  separator is never empty; \<open>parts[1]\<close> is read inside the \<open>try\<close>, where a failing
  \<open>int\<close> gives the default.
\<close>

definition parse_note_spec :: "unicode_db \<Rightarrow> pystr \<Rightarrow> pystr \<times> bool \<times> bool \<times> int" where
  "parse_note_spec db spec0 =
     (let spec = py_upper db (py_strip spec0);
          komal = py_in (lit ''_K'') spec;
          spec = (if komal then py_remove (lit ''_K'') spec else spec);
          tivra = py_in (lit ''_T'') spec;
          spec = (if tivra then py_remove (lit ''_T'') spec else spec)
      in if 43 \<in> set spec then
           (let parts = py_split_sep 43 spec
            in (hd parts, komal, tivra,
                (case tl parts of
                   [] \<Rightarrow> 1
                 | p # _ \<Rightarrow> (case py_int db p of None \<Rightarrow> 1 | Some n \<Rightarrow> n))))
         else if 45 \<in> set spec \<and> count_list spec 45 = 1 then
           (let parts = py_split_sep 45 spec
            in (hd parts, komal, tivra,
                (case tl parts of
                   [] \<Rightarrow> - 1
                 | p # _ \<Rightarrow> (case py_int db p of None \<Rightarrow> - 1 | Some n \<Rightarrow> - n))))
         else (spec, komal, tivra, 0))"

text \<open>
  \<open>NotationParser.parse_sequence\<close>. \<open>note_of_spec\<close> is the body of the \<open>try\<close>: the
  token is parsed and the note constructed. The loop appends each note that is
  constructed; a \<open>ValueError\<close> skips the token, any other exception would leave the loop.
  The warning printed for a skipped token goes to the standard output and is not part of
  the result.
\<close>

definition note_of_spec :: "unicode_db \<Rightarrow> pystr \<Rightarrow> error + Note" where
  "note_of_spec db part =
     (case parse_note_spec db part of (b, k, t, n) \<Rightarrow> Note_init db b k t n)"

fun parse_loop :: "unicode_db \<Rightarrow> Note list \<Rightarrow> pystr list \<Rightarrow> error + Note list" where
  "parse_loop db notes [] = Inr notes"
| "parse_loop db notes (part # parts) =
     (if part = [] then parse_loop db notes parts
      else (case note_of_spec db part of
              Inr note \<Rightarrow> parse_loop db (notes @ [note]) parts
            | Inl (ValueError e) \<Rightarrow> parse_loop db notes parts
            | Inl IndexError \<Rightarrow> Inl IndexError))"

definition parse_sequence :: "unicode_db \<Rightarrow> pystr \<Rightarrow> error + Note list" where
  "parse_sequence db sequence = parse_loop db [] (py_split (py_strip sequence))"

text \<open>\<open>NotationParser.generate_notation_sequence\<close>\<close>

fun to_notation_all :: "Note list \<Rightarrow> error + pystr list" where
  "to_notation_all [] = Inr []"
| "to_notation_all (note # notes) =
     (case to_notation note of
        Inl e \<Rightarrow> Inl e
      | Inr r \<Rightarrow> (case to_notation_all notes of Inl e \<Rightarrow> Inl e | Inr rs \<Rightarrow> Inr (r # rs)))"

definition generate_notation_sequence :: "Note list \<Rightarrow> pystr \<Rightarrow> error + pystr" where
  "generate_notation_sequence notes separator =
     (case to_notation_all notes of Inl e \<Rightarrow> Inl e | Inr rs \<Rightarrow> Inr (py_join separator rs))"


section \<open>Taals (taal\_definitions.py)\<close>

record Taal =
  name :: pystr
  display_name :: pystr
  total_matras :: int
  vibhag_structure :: "int list"
  sam_position :: int
  khali_positions :: "int list"
  tali_positions :: "int list"
  bols :: "pystr list option"

text \<open>How an f-string shows a list of integers.\<close>

definition py_repr_ints :: "int list \<Rightarrow> error + pystr" where
  "py_repr_ints xs =
     (case py_format_all xs of
        Inl e \<Rightarrow> Inl e
      | Inr ds \<Rightarrow> Inr ([91] @ py_join (lit '', '') ds @ [93]))"

definition msg_sum :: "int list \<Rightarrow> int \<Rightarrow> error + pystr" where
  "msg_sum vs tm =
     (case py_repr_ints vs of
        Inl e \<Rightarrow> Inl e
      | Inr l \<Rightarrow>
          (case py_format tm of
             Inl e \<Rightarrow> Inl e
           | Inr d \<Rightarrow>
               Inr (lit ''Vibhag structure '' @ l @ lit '' does not sum to total matras '' @ d)))"

text \<open>The message of a position or a beat (\<open>kind\<close>) that is out of range.\<close>

definition msg_range :: "pystr \<Rightarrow> int \<Rightarrow> int \<Rightarrow> error + pystr" where
  "msg_range kind pos tm =
     (case py_format pos of
        Inl e \<Rightarrow> Inl e
      | Inr p \<Rightarrow>
          (case py_format tm of
             Inl e \<Rightarrow> Inl e
           | Inr d \<Rightarrow> Inr (kind @ [32] @ p @ lit '' is out of range (1-'' @ d @ lit '')'')))"

text \<open>
  \<open>Taal.__post_init__\<close>, run by the constructor on the fields it was given: the sum
  of the vibhags, then each khali position, then each tali position; the first failing
  check raises \<open>ValueError\<close>.
\<close>

definition Taal_post_init :: "Taal \<Rightarrow> error + Taal" where
  "Taal_post_init self =
     (if sum_list (vibhag_structure self) \<noteq> total_matras self
      then Inl (raise_ValueError (msg_sum (vibhag_structure self) (total_matras self)))
      else (case find (\<lambda>pos. pos < 1 \<or> pos > total_matras self) (khali_positions self) of
              Some pos \<Rightarrow>
                Inl (raise_ValueError
                       (msg_range (lit ''Khali position'') pos (total_matras self)))
            | None \<Rightarrow>
               (case find (\<lambda>pos. pos < 1 \<or> pos > total_matras self) (tali_positions self) of
                  Some pos \<Rightarrow>
                    Inl (raise_ValueError
                           (msg_range (lit ''Tali position'') pos (total_matras self)))
                | None \<Rightarrow> Inr self)))"

text \<open>
  The loop of \<open>get_vibhag_for_matra\<close>: \<open>cumulative\<close> is the running sum, \<open>i\<close> the
  index of the vibhag under inspection; \<open>None\<close> when the loop ends without returning.
\<close>

fun vibhag_loop :: "int \<Rightarrow> int \<Rightarrow> nat \<Rightarrow> int list \<Rightarrow> int option" where
  "vibhag_loop matra cumulative i [] = None"
| "vibhag_loop matra cumulative i (count # rest) =
     (if matra \<le> cumulative + count then Some (int i + 1)
      else vibhag_loop matra (cumulative + count) (Suc i) rest)"

definition get_vibhag_for_matra :: "Taal \<Rightarrow> int \<Rightarrow> error + int" where
  "get_vibhag_for_matra self matra =
     (if matra < 1 \<or> matra > total_matras self
      then Inl (raise_ValueError (msg_range (lit ''Matra'') matra (total_matras self)))
      else (case vibhag_loop matra 0 0 (vibhag_structure self) of
              Some v \<Rightarrow> Inr v
            | None \<Rightarrow> Inr (int (length (vibhag_structure self)))))"

definition is_sam :: "Taal \<Rightarrow> int \<Rightarrow> bool" where
  "is_sam self matra = (matra = sam_position self)"

definition is_khali :: "Taal \<Rightarrow> int \<Rightarrow> bool" where
  "is_khali self matra = (matra \<in> set (khali_positions self))"

definition is_tali :: "Taal \<Rightarrow> int \<Rightarrow> bool" where
  "is_tali self matra = (matra \<in> set (tali_positions self))"

definition get_matra_symbol :: "Taal \<Rightarrow> int \<Rightarrow> error + pystr" where
  "get_matra_symbol self matra =
     (if is_sam self matra then Inr (lit ''X'')
      else if is_khali self matra then Inr (lit ''0'')
      else if is_tali self matra then
        (case get_vibhag_for_matra self matra of Inl e \<Rightarrow> Inl e | Inr v \<Rightarrow> Inr (py_str v))
      else Inr [])"

text \<open>Entries of the shipped library, with the fields the source gives them.\<close>

definition TEENTAAL :: Taal where
  "TEENTAAL =
     \<lparr>name = lit ''teentaal'',
      display_name = lit ''TeenTaal ('' @ [2340, 2368, 2344, 2340, 2366, 2354] @ lit '')'',
      total_matras = 16,
      vibhag_structure = [4, 4, 4, 4],
      sam_position = 1,
      khali_positions = [9],
      tali_positions = [1, 5, 13],
      bols = Some (map lit [''Dha'', ''Dhin'', ''Dhin'', ''Dha'', ''Dha'', ''Dhin'', ''Dhin'',
                            ''Dha'', ''Dha'', ''Tin'', ''Tin'', ''Ta'', ''Ta'', ''Dhin'',
                            ''Dhin'', ''Dha''])\<rparr>"

definition DADRA :: Taal where
  "DADRA =
     \<lparr>name = lit ''dadra'',
      display_name = lit ''Dadra ('' @ [2342, 2366, 2342, 2352, 2366] @ lit '')'',
      total_matras = 6,
      vibhag_structure = [3, 3],
      sam_position = 1,
      khali_positions = [4],
      tali_positions = [1],
      bols = Some (map lit [''Dha'', ''Dhin'', ''Na'', ''Dha'', ''Tin'', ''Na''])\<rparr>"

definition RUPAK :: Taal where
  "RUPAK =
     \<lparr>name = lit ''rupak'',
      display_name = lit ''Rupak ('' @ [2352, 2370, 2346, 2325] @ lit '')'',
      total_matras = 7,
      vibhag_structure = [3, 2, 2],
      sam_position = 1,
      khali_positions = [1],
      tali_positions = [4, 6],
      bols = Some (map lit [''Tin'', ''Tin'', ''Na'', ''Dhi'', ''Na'', ''Dhi'', ''Na''])\<rparr>"

text \<open>
  Two values outside the library, which \<open>Taal.__post_init__\<close> accepts: their beat count
  is negative and their one vibhag sums to it.
\<close>

definition NEGATIVE_TAAL :: Taal where
  "NEGATIVE_TAAL =
     \<lparr>name = lit ''neg'', display_name = lit ''Neg'', total_matras = - 1,
      vibhag_structure = [- 1], sam_position = 1, khali_positions = [], tali_positions = [],
      bols = None\<rparr>"

definition HUGE_NEGATIVE_TAAL :: Taal where
  "HUGE_NEGATIVE_TAAL =
     \<lparr>name = lit ''huge'', display_name = lit ''Huge'',
      total_matras = - (10 ^ int_max_str_digits),
      vibhag_structure = [- (10 ^ int_max_str_digits)], sam_position = 1,
      khali_positions = [], tali_positions = [], bols = None\<rparr>"

section \<open>Beat grids (beat\_grid.py)\<close>

record MatraCell =
  matra_number :: int
  vibhag_number :: int
  cell_is_sam :: bool
  cell_is_khali :: bool
  cell_is_tali :: bool
  symbol :: pystr
  swars :: "pystr list"
  rendered_notation :: pystr

text \<open>
  How one swar of a cell is rendered in \<open>_render_notation\<close>: the continuation marker as
  it is, a swar that parses to at least one note as those notes, and the raw swar when no
  note comes out or when anything raises (\<open>except Exception\<close>).
\<close>

definition render_swar :: "unicode_db \<Rightarrow> pystr \<Rightarrow> pystr" where
  "render_swar db swar =
     (if swar = lit ''-'' then lit ''-''
      else (case parse_sequence db swar of
              Inl e \<Rightarrow> swar
            | Inr notes \<Rightarrow>
                if notes \<noteq> [] then
                  (case generate_notation_sequence notes (lit '' '') of
                     Inl e \<Rightarrow> swar
                   | Inr rendered \<Rightarrow> rendered)
                else swar))"

definition render_notation :: "unicode_db \<Rightarrow> MatraCell \<Rightarrow> MatraCell" where
  "render_notation db self =
     (if swars self = [] then self\<lparr>rendered_notation := []\<rparr>
      else self\<lparr>rendered_notation := py_join (lit '' '') (map (render_swar db) (swars self))\<rparr>)"

definition set_swars :: "unicode_db \<Rightarrow> MatraCell \<Rightarrow> pystr \<Rightarrow> MatraCell" where
  "set_swars db self swar_input =
     render_notation db
       (self\<lparr>swars :=
          (if py_strip swar_input = lit ''-'' then [lit ''-'']
           else if py_strip swar_input \<noteq> [] then py_split (py_strip swar_input)
           else [])\<rparr>)"

definition is_empty :: "MatraCell \<Rightarrow> bool" where
  "is_empty self = (length (swars self) = 0)"

definition get_display_text :: "MatraCell \<Rightarrow> pystr" where
  "get_display_text self = (if rendered_notation self \<noteq> [] then rendered_notation self else [])"

text \<open>
  A vibhag group holds the very cell objects of the grid; here it holds their indices
  in the grid's list of cells.
\<close>

record VibhagGroup =
  group_vibhag_number :: int
  group_matras :: "nat list"
  start_matra :: int
  end_matra :: int

record BeatGrid =
  taal :: Taal
  matras :: "MatraCell list"
  vibhags :: "VibhagGroup list"

text \<open>
  \<open>BeatGrid._initialize_grid\<close>. The inner loop makes \<open>matra_count\<close> cells (none when
  the count is not positive), numbered from \<open>matra_num\<close>; the outer loop runs over the
  vibhags.
\<close>

fun make_cells :: "Taal \<Rightarrow> int \<Rightarrow> int \<Rightarrow> nat \<Rightarrow> error + MatraCell list" where
  "make_cells t vn matra_num 0 = Inr []"
| "make_cells t vn matra_num (Suc k) =
     (case get_matra_symbol t matra_num of
        Inl e \<Rightarrow> Inl e
      | Inr smb \<Rightarrow>
          (case make_cells t vn (matra_num + 1) k of
             Inl e \<Rightarrow> Inl e
           | Inr cells \<Rightarrow>
               Inr (\<lparr>matra_number = matra_num, vibhag_number = vn,
                     cell_is_sam = is_sam t matra_num, cell_is_khali = is_khali t matra_num,
                     cell_is_tali = is_tali t matra_num, symbol = smb,
                     swars = [], rendered_notation = []\<rparr> # cells)))"

fun initialize_loop ::
  "Taal \<Rightarrow> nat \<Rightarrow> int \<Rightarrow> int list \<Rightarrow> error + (MatraCell list \<times> VibhagGroup list)" where
  "initialize_loop t vibhag_idx matra_num [] = Inr ([], [])"
| "initialize_loop t vibhag_idx matra_num (matra_count # rest) =
     (case make_cells t (int vibhag_idx + 1) matra_num (nat matra_count) of
        Inl e \<Rightarrow> Inl e
      | Inr cells \<Rightarrow>
          (case initialize_loop t (Suc vibhag_idx) (matra_num + int (nat matra_count)) rest of
             Inl e \<Rightarrow> Inl e
           | Inr (ms, vs) \<Rightarrow>
               Inr (cells @ ms,
                    \<lparr>group_vibhag_number = int vibhag_idx + 1,
                     group_matras = [nat (matra_num - 1) ..< nat (matra_num - 1) + nat matra_count],
                     start_matra = matra_num,
                     end_matra = matra_num + matra_count - 1\<rparr> # vs)))"

definition BeatGrid_init :: "Taal \<Rightarrow> error + BeatGrid" where
  "BeatGrid_init t =
     (case initialize_loop t 0 1 (vibhag_structure t) of
        Inl e \<Rightarrow> Inl e
      | Inr (ms, vs) \<Rightarrow> Inr \<lparr>taal = t, matras = ms, vibhags = vs\<rparr>)"

text \<open>
  \<open>BeatGrid.set_matra_swars\<close> returns the grid as the call leaves it, with the flag it
  returns. \<open>self.matras[matra_number - 1]\<close> raises \<open>IndexError\<close> beyond the list.
\<close>

definition set_matra_swars ::
  "unicode_db \<Rightarrow> BeatGrid \<Rightarrow> int \<Rightarrow> pystr \<Rightarrow> error + (BeatGrid \<times> bool)" where
  "set_matra_swars db self matra_no swar_input =
     (if matra_no < 1 \<or> matra_no > total_matras (taal self) then Inr (self, False)
      else if nat (matra_no - 1) < length (matras self) then
        Inr (self\<lparr>matras := (matras self)
                    [nat (matra_no - 1) :=
                       set_swars db (matras self ! nat (matra_no - 1)) swar_input]\<rparr>,
             True)
      else Inl IndexError)"

definition clear_grid :: "BeatGrid \<Rightarrow> BeatGrid" where
  "clear_grid self =
     self\<lparr>matras := map (\<lambda>matra. matra\<lparr>swars := [], rendered_notation := []\<rparr>) (matras self)\<rparr>"

text \<open>
  The filling loop of \<open>fill_from_sequence\<close>: \<open>i\<close> is the index that \<open>enumerate\<close> gives.
  It returns the cells as the loop leaves them, with the error that ended it, if any:
  \<open>self.matras[i]\<close> raises \<open>IndexError\<close> beyond the list.
\<close>

fun fill_loop ::
  "unicode_db \<Rightarrow> int \<Rightarrow> nat \<Rightarrow> pystr list \<Rightarrow> MatraCell list
     \<Rightarrow> MatraCell list \<times> error option" where
  "fill_loop db tm i [] ms = (ms, None)"
| "fill_loop db tm i (swar # rest) ms =
     (if int i < tm then
        (if i < length ms then fill_loop db tm (Suc i) rest (ms[i := set_swars db (ms ! i) swar])
         else (ms, Some IndexError))
      else fill_loop db tm (Suc i) rest ms)"

text \<open>
  The two messages of \<open>fill_from_sequence\<close>. Both show the number of tokens, the length
  of a list; the first also shows \<open>total_matras\<close>, an arbitrary integer, and raises when
  that cannot be shown.
\<close>

definition msg_too_many :: "nat \<Rightarrow> Taal \<Rightarrow> error + pystr" where
  "msg_too_many n t =
     (case py_format (total_matras t) of
        Inl e \<Rightarrow> Inl e
      | Inr d \<Rightarrow>
          Inr (lit ''Too many swars ('' @ py_str (int n) @ lit '') for '' @ display_name t
                 @ lit '' ('' @ d @ lit '' matras)''))"

definition msg_filled :: "nat \<Rightarrow> pystr" where
  "msg_filled n = lit ''Filled '' @ py_str (int n) @ lit '' matras''"

text \<open>
  \<open>BeatGrid.fill_from_sequence\<close> gives the grid as the call leaves it, with the pair it
  returns or the error it raises.
\<close>

definition fill_from_sequence ::
  "unicode_db \<Rightarrow> BeatGrid \<Rightarrow> pystr \<Rightarrow> BeatGrid \<times> (error + bool \<times> pystr)" where
  "fill_from_sequence db self0 sequence =
     (let self = clear_grid self0;
          parts = py_split (py_strip sequence)
      in if parts = [] then (self, Inr (True, lit ''Grid cleared''))
         else if int (length parts) > total_matras (taal self) then
           (case msg_too_many (length parts) (taal self) of
              Inl e \<Rightarrow> (self, Inl e)
            | Inr m \<Rightarrow> (self, Inr (False, m)))
         else (case fill_loop db (total_matras (taal self)) 0 parts (matras self) of
                 (ms, Some e) \<Rightarrow> (self\<lparr>matras := ms\<rparr>, Inl e)
               | (ms, None) \<Rightarrow> (self\<lparr>matras := ms\<rparr>, Inr (True, msg_filled (length parts)))))"

text \<open>
  \<open>BeatGrid.get_rendered_notation\<close>: \<open>rendered_parts\<close> is the list \<open>parts\<close> that its loop
  builds, one field for each cell.
\<close>

definition rendered_parts :: "BeatGrid \<Rightarrow> pystr list" where
  "rendered_parts self =
     map (\<lambda>matra. if get_display_text matra \<noteq> [] then get_display_text matra else lit ''-'')
       (matras self)"

definition get_rendered_notation :: "BeatGrid \<Rightarrow> pystr" where
  "get_rendered_notation self = py_join (lit '' '') (rendered_parts self)"

definition is_complete :: "BeatGrid \<Rightarrow> bool" where
  "is_complete self = list_all (\<lambda>matra. \<not> is_empty matra) (matras self)"

definition get_filled_count :: "BeatGrid \<Rightarrow> int" where
  "get_filled_count self = sum_list (map (\<lambda>matra. 1) (filter (\<lambda>matra. \<not> is_empty matra) (matras self)))"

section \<open>The specification's words\<close>

text \<open>
  The five rules of the specification for a note with (uppercased) base \<open>b\<close>, and the
  messages of the rules that are broken, in the order of the rules.
\<close>

definition rules_hold :: "pystr \<Rightarrow> bool \<Rightarrow> bool \<Rightarrow> int \<Rightarrow> bool" where
  "rules_hold b k t n =
     (b \<in> set valid_bases \<and> (k \<longrightarrow> b \<in> set komal_bases) \<and> (t \<longrightarrow> b = lit ''MA'')
      \<and> \<not> (k \<and> t) \<and> - 3 \<le> n \<and> n \<le> 3)"

definition violated_messages :: "pystr \<Rightarrow> bool \<Rightarrow> bool \<Rightarrow> int \<Rightarrow> pystr list" where
  "violated_messages b k t n =
     map snd (filter (\<lambda>(violated, msg). violated)
       [(b \<notin> set valid_bases, msg_base b),
        (k \<and> b \<notin> set komal_bases, msg_komal b),
        (t \<and> b \<noteq> lit ''MA'', msg_tivra b),
        (k \<and> t, msg_both),
        (n < - 3 \<or> 3 < n,
         lit ''Octave '' @ py_str n @ lit '' out of range. Must be between -3 and +3'')])"

text \<open>
  The rendering as the specification words it: the base, the underline after every
  character when komal, the vertical line after the first character when tivra, then the
  dots at the very end.
\<close>

definition spec_render :: "Note \<Rightarrow> pystr" where
  "spec_render n =
     (let s1 = (if komal n then concat (map (\<lambda>c. [c, COMBINING_UNDERLINE]) (base n))
                else base n);
          s2 = (if tivra n then take 1 s1 @ [COMBINING_VERTICAL_LINE_ABOVE] @ drop 1 s1 else s1)
      in s2 @ (if 0 < octave n then replicate (nat \<bar>octave n\<bar>) COMBINING_DOT_ABOVE
               else if octave n < 0 then replicate (nat \<bar>octave n\<bar>) COMBINING_DOT_BELOW
               else []))"

text \<open>
  What every grid built by the constructor satisfies, and every mutator keeps: the list of
  cells is at least as long as the beat count of the Taal.
\<close>

definition grid_wf :: "BeatGrid \<Rightarrow> bool" where
  "grid_wf g = (total_matras (taal g) \<le> int (length (matras g)))"

text \<open>
  The fields of the rendered line as the specification words them: one for each cell,
  its rendered notation, or "-" when that is empty.
\<close>

definition spec_fields :: "MatraCell list \<Rightarrow> pystr list" where
  "spec_fields cells =
     map (\<lambda>cell. if rendered_notation cell = [] then lit ''-'' else rendered_notation cell) cells"

text \<open>
  The notes of a sequence as the specification words them: the notes that are
  constructed from the tokens, in the order of the tokens, a token whose construction
  fails leaving nothing.
\<close>

definition constructed_notes :: "unicode_db \<Rightarrow> pystr list \<Rightarrow> Note list" where
  "constructed_notes db toks =
     List.map_filter
       (\<lambda>tok. case note_of_spec db tok of Inr note \<Rightarrow> Some note | Inl e \<Rightarrow> None) toks"

text \<open>
  The swars of a cell and the rendering of one token as the specification words them;
  the rendered notes are written with \<open>spec_render\<close>, which cannot raise.
\<close>

definition spec_cell_swars :: "pystr \<Rightarrow> pystr list" where
  "spec_cell_swars s =
     (if py_strip s = lit ''-'' then [lit ''-'']
      else if py_strip s \<noteq> [] then py_split (py_strip s)
      else [])"

definition spec_render_token :: "unicode_db \<Rightarrow> pystr \<Rightarrow> pystr" where
  "spec_render_token db tok =
     (if tok = lit ''-'' then lit ''-''
      else (case parse_sequence db tok of
              Inl e \<Rightarrow> tok
            | Inr notes \<Rightarrow>
                if notes = [] then tok else py_join (lit '' '') (map spec_render notes)))"

text \<open>
  The words of the specification for the parser: the text that remains after
  uppercasing and removing the komal and tivra markers; the part of a text before the
  first occurrence of a separator and the part between the first and the next; a
  non-empty run of ASCII digits and its decimal value.
\<close>

definition remaining_text :: "unicode_db \<Rightarrow> pystr \<Rightarrow> pystr" where
  "remaining_text db s =
     py_remove (lit ''_T'') (py_remove (lit ''_K'') (py_upper db (py_strip s)))"

definition first_part :: "nat \<Rightarrow> pystr \<Rightarrow> pystr" where
  "first_part sep r = takeWhile (\<lambda>c. c \<noteq> sep) r"

definition second_part :: "nat \<Rightarrow> pystr \<Rightarrow> pystr" where
  "second_part sep r = takeWhile (\<lambda>c. c \<noteq> sep) (tl (dropWhile (\<lambda>c. c \<noteq> sep) r))"

definition is_digits :: "pystr \<Rightarrow> bool" where
  "is_digits ds = (ds \<noteq> [] \<and> list_all (\<lambda>c. 48 \<le> c \<and> c \<le> 57) ds)"

definition dec_val :: "pystr \<Rightarrow> nat" where
  "dec_val ds = foldl (\<lambda>a c. 10 * a + (c - 48)) 0 ds"

text \<open>
  The documented grammar of a spec: a base name written in upper or lower case, then at
  most one modifier (in either case), then at most one octave suffix, a sign followed by
  digits whose value is in range. \<open>spellings\<close> lists the ways of writing an uppercase
  name; \<open>modifier_texts\<close> the texts of the modifier that stands for the flags;
  \<open>octave_of_suffix\<close> the octave that a suffix of the grammar stands for.
\<close>

fun spellings :: "pystr \<Rightarrow> pystr list" where
  "spellings [] = [[]]"
| "spellings (c # cs) = concat (map (\<lambda>v. [c # v, (c + 32) # v]) (spellings cs))"

definition modifier_texts :: "bool \<Rightarrow> bool \<Rightarrow> pystr list" where
  "modifier_texts k t =
     (if k then [lit ''_K'', lit ''_k''] else if t then [lit ''_T'', lit ''_t''] else [[]])"

definition octave_of_suffix :: "pystr \<Rightarrow> int option" where
  "octave_of_suffix sfx =
     (case sfx of
        [] \<Rightarrow> Some 0
      | c # ds \<Rightarrow>
          if is_digits ds \<and> dec_val ds \<le> 3 then
            (if c = 43 then Some (int (dec_val ds))
             else if c = 45 then Some (- int (dec_val ds))
             else None)
          else None)"

section \<open>Properties\<close>

subsection \<open>The digit limit\<close>

lemma str_nat_nonempty: "str_nat n \<noteq> []"
  by (subst str_nat.simps) simp

lemma str_nat_length:
  "0 < k \<Longrightarrow> k < length (str_nat n) \<longleftrightarrow> 10 ^ k \<le> n"
proof (induction n arbitrary: k rule: str_nat.induct)
  case (1 n)
  show ?case
  proof (cases "n < 10")
    case True
    have "(10::nat) ^ 1 \<le> 10 ^ k" using 1(2) by (intro power_increasing) simp_all
    with True have "\<not> 10 ^ k \<le> n" by simp
    moreover from True have "length (str_nat n) = 1" by (simp add: str_nat.simps)
    ultimately show ?thesis using 1(2) by simp
  next
    case False
    then have l: "length (str_nat n) = Suc (length (str_nat (n div 10)))"
      by (subst str_nat.simps) simp
    show ?thesis
    proof (cases "k = 1")
      case True
      with False l show ?thesis by (simp add: str_nat_nonempty)
    next
      case k: False
      with 1(2) obtain j where j: "k = Suc j" "0 < j" by (cases k) auto
      from 1(1) [OF False j(2)] have "j < length (str_nat (n div 10)) \<longleftrightarrow> 10 ^ j \<le> n div 10" .
      moreover have "10 ^ j \<le> n div 10 \<longleftrightarrow> 10 ^ k \<le> n"
        by (simp add: j less_eq_div_iff_mult_less_eq mult.commute)
      ultimately show ?thesis by (simp add: l j)
    qed
  qed
qed

lemma exceeds_str_limit_iff: "exceeds_str_limit i \<longleftrightarrow> 10 ^ int_max_str_digits \<le> \<bar>i\<bar>"
proof -
  have "0 < int_max_str_digits" by (simp add: int_max_str_digits_def)
  then have "exceeds_str_limit i \<longleftrightarrow> 10 ^ int_max_str_digits \<le> nat \<bar>i\<bar>"
    unfolding exceeds_str_limit_def by (rule str_nat_length)
  also have "\<dots> \<longleftrightarrow> int (10 ^ int_max_str_digits) \<le> \<bar>i\<bar>" by linarith
  finally show ?thesis by simp
qed

lemma limit_large: "(10::int) \<le> 10 ^ int_max_str_digits"
proof -
  have "(10::int) ^ 1 \<le> 10 ^ int_max_str_digits"
    by (intro power_increasing) (simp_all add: int_max_str_digits_def)
  then show ?thesis by simp
qed

lemma small_not_exceeds: "\<bar>i\<bar> < 10 \<Longrightarrow> \<not> exceeds_str_limit i"
  using limit_large by (simp add: exceeds_str_limit_iff)

lemma py_format_small: "\<bar>i\<bar> < 10 \<Longrightarrow> py_format i = Inr (py_str i)"
  by (simp add: py_format_def small_not_exceeds)

subsection \<open>The symbol of a beat\<close>

lemma get_matra_symbol_in_range:
  "1 \<le> beat \<and> beat \<le> total_matras t \<longrightarrow>
     (\<exists>v. get_vibhag_for_matra t beat = Inr v \<and>
          get_matra_symbol t beat =
            Inr (if beat = sam_position t then lit ''X''
                 else if beat \<in> set (khali_positions t) then lit ''0''
                 else if beat \<in> set (tali_positions t) then py_str v
                 else []))"
  by (auto simp: get_matra_symbol_def get_vibhag_for_matra_def is_sam_def is_khali_def
      is_tali_def split: option.splits)

lemma get_matra_symbol_shipped:
  "get_matra_symbol TEENTAAL 1 = Inr (lit ''X'')"
  "get_matra_symbol TEENTAAL 9 = Inr (lit ''0'')"
  "get_matra_symbol TEENTAAL 5 = Inr (lit ''2'')"
  "get_matra_symbol TEENTAAL 16 = Inr (lit '''')"
  "get_matra_symbol RUPAK 1 = Inr (lit ''X'')"
  "1 \<in> set (khali_positions RUPAK)"
  by (simp_all add: get_matra_symbol_def get_vibhag_for_matra_def is_sam_def is_khali_def
      is_tali_def TEENTAAL_def RUPAK_def lit_def py_str_def str_nat.simps)

text \<open>
  C3. For every Taal and every beat from 1 to \<open>total_matras\<close>, \<open>get_matra_symbol\<close>
  returns (without raising) "X" when the beat is the sam position, whatever the khali and
  tali lists hold; else "0" when the beat is a khali position; else the decimal string of
  the beat's vibhag number when it is a tali position; else the empty string. In the
  shipped Rupak beat 1 is both sam and khali and gets "X"; in the shipped TeenTaal beats
  1, 9, 5 and 16 get "X", "0", "2" and the empty string.
\<close>

theorem get_matra_symbol_precedence:
  "(\<forall>t beat. 1 \<le> beat \<and> beat \<le> total_matras t \<longrightarrow>
      (\<exists>v. get_vibhag_for_matra t beat = Inr v \<and>
           get_matra_symbol t beat =
             Inr (if beat = sam_position t then lit ''X''
                  else if beat \<in> set (khali_positions t) then lit ''0''
                  else if beat \<in> set (tali_positions t) then py_str v
                  else [])))
   \<and> get_matra_symbol RUPAK 1 = Inr (lit ''X'') \<and> 1 \<in> set (khali_positions RUPAK)
   \<and> get_matra_symbol TEENTAAL 1 = Inr (lit ''X'')
   \<and> get_matra_symbol TEENTAAL 9 = Inr (lit ''0'')
   \<and> get_matra_symbol TEENTAAL 5 = Inr (lit ''2'')
   \<and> get_matra_symbol TEENTAAL 16 = Inr (lit '''')"
  using get_matra_symbol_in_range get_matra_symbol_shipped by blast

theorem get_matra_symbol_precedence_witness:
  "1 \<le> (13::int) \<and> 13 \<le> total_matras TEENTAAL
   \<and> get_vibhag_for_matra TEENTAAL 13 = Inr 4
   \<and> get_matra_symbol TEENTAAL 13 = Inr (lit ''4'')"
proof -
  have r: "1 \<le> (13::int) \<and> 13 \<le> total_matras TEENTAAL"
    by (simp add: TEENTAAL_def)
  have v: "get_vibhag_for_matra TEENTAAL 13 = Inr 4"
    by (simp add: get_vibhag_for_matra_def TEENTAAL_def)
  from get_matra_symbol_precedence r
  obtain v' where "get_vibhag_for_matra TEENTAAL 13 = Inr v'" and
    s: "get_matra_symbol TEENTAAL 13 =
          Inr (if 13 = sam_position TEENTAAL then lit ''X''
               else if 13 \<in> set (khali_positions TEENTAAL) then lit ''0''
               else if 13 \<in> set (tali_positions TEENTAAL) then py_str v'
               else [])"
    by blast
  with v have "v' = 4" by simp
  with s have "get_matra_symbol TEENTAAL 13 = Inr (lit ''4'')"
    by (simp add: TEENTAAL_def py_str_def str_nat.simps lit_def)
  with r v show ?thesis by simp
qed

subsection \<open>Notes\<close>

lemma exceeds_out_of_range: "exceeds_str_limit n \<Longrightarrow> n < - 3 \<or> 3 < n"
  using limit_large by (auto simp: exceeds_str_limit_iff)

lemma validate_eq:
  "validate \<lparr>base = b, komal = k, tivra = t, octave = n\<rparr> =
     (if exceeds_str_limit n then Inl (ValueError msg_str_limit)
      else Inr (violated_messages b k t n))"
  using exceeds_out_of_range [of n]
  by (auto simp add: validate_def violated_messages_def msg_octave_def py_format_def Let_def)

lemma rules_hold_iff: "rules_hold b k t n \<longleftrightarrow> violated_messages b k t n = []"
  by (auto simp add: rules_hold_def violated_messages_def)

lemma exceeds_not_rules: "exceeds_str_limit n \<Longrightarrow> \<not> rules_hold b k t n"
  using exceeds_out_of_range [of n] by (auto simp: rules_hold_def)

lemma Note_init_cases:
  "Note_init db b k t n =
     (if rules_hold (py_upper db b) k t n
      then Inr \<lparr>base = py_upper db b, komal = k, tivra = t, octave = n\<rparr>
      else Inl (ValueError
                 (if exceeds_str_limit n then msg_str_limit
                  else lit ''Invalid note: ''
                         @ py_join (lit '', '') (violated_messages (py_upper db b) k t n))))"
  using exceeds_not_rules [of n "py_upper db b" k t]
  by (simp add: Note_init_def Let_def validate_eq rules_hold_iff)

text \<open>
  C1, as amended. The constructor uppercases the base first. It returns a note exactly
  when the five rules hold of the uppercased base and the flags and octave given, and the
  note then carries those fields. When a rule is broken it raises one \<open>ValueError\<close> and
  produces no note. Unless the octave has more than 4300 digits, the message is "Invalid
  note: " followed by the messages of all the broken rules, in the order of the rules,
  joined by a comma and a space. An octave of more than 4300 digits (at least
  \<open>10 ^ 4300\<close> in absolute value) cannot be shown in its message: the error raised is
  then the interpreter's, with the message of the digit limit. With komal and tivra both
  set the construction fails whatever the base.
\<close>

theorem Note_init_rules:
  "(Note_init db b k t n = Inr note \<longleftrightarrow>
      rules_hold (py_upper db b) k t n
      \<and> note = \<lparr>base = py_upper db b, komal = k, tivra = t, octave = n\<rparr>)
   \<and> (\<not> rules_hold (py_upper db b) k t n \<longrightarrow>
        violated_messages (py_upper db b) k t n \<noteq> []
        \<and> Note_init db b k t n =
            Inl (ValueError
                  (if exceeds_str_limit n then msg_str_limit
                   else lit ''Invalid note: ''
                          @ py_join (lit '', '') (violated_messages (py_upper db b) k t n))))
   \<and> (exceeds_str_limit n \<longleftrightarrow> 10 ^ int_max_str_digits \<le> \<bar>n\<bar>)
   \<and> Note_init db b True True n \<noteq> Inr note"
proof (intro conjI)
  show "Note_init db b k t n = Inr note \<longleftrightarrow>
      rules_hold (py_upper db b) k t n
      \<and> note = \<lparr>base = py_upper db b, komal = k, tivra = t, octave = n\<rparr>"
    by (auto simp add: Note_init_cases)
  show "\<not> rules_hold (py_upper db b) k t n \<longrightarrow>
        violated_messages (py_upper db b) k t n \<noteq> []
        \<and> Note_init db b k t n =
            Inl (ValueError
                  (if exceeds_str_limit n then msg_str_limit
                   else lit ''Invalid note: ''
                          @ py_join (lit '', '') (violated_messages (py_upper db b) k t n)))"
    by (simp add: Note_init_cases rules_hold_iff)
  show "exceeds_str_limit n \<longleftrightarrow> 10 ^ int_max_str_digits \<le> \<bar>n\<bar>"
    by (rule exceeds_str_limit_iff)
  show "Note_init db b True True n \<noteq> Inr note"
    by (simp add: Note_init_cases rules_hold_def)
qed

theorem Note_init_rules_witness:
  "rules_hold (py_upper ascii_db (lit ''re'')) True False (- 2)
   \<and> Note_init ascii_db (lit ''re'') True False (- 2)
       = Inr \<lparr>base = lit ''RE'', komal = True, tivra = False, octave = - 2\<rparr>
   \<and> \<not> rules_hold (py_upper ascii_db (lit ''sa'')) True True 7
   \<and> \<not> exceeds_str_limit 7
   \<and> Note_init ascii_db (lit ''sa'') True True 7
       = Inl (ValueError (lit ''Invalid note: 'SA' cannot be komal. Only RE, GA, DHA, NI can be komal, 'SA' cannot be tivra. Only MA can be tivra, Note cannot be both komal and tivra, Octave 7 out of range. Must be between -3 and +3''))"
proof -
  have u1: "py_upper ascii_db (lit ''re'') = lit ''RE''"
    by (simp add: py_upper_def upper_char_def lit_def)
  have u2: "py_upper ascii_db (lit ''sa'') = lit ''SA''"
    by (simp add: py_upper_def upper_char_def lit_def)
  have r1: "rules_hold (lit ''RE'') True False (- 2)"
    by (simp add: rules_hold_def valid_bases_def komal_bases_def lit_def)
  have r2: "\<not> rules_hold (lit ''SA'') True True 7"
    by (simp add: rules_hold_def)
  have x: "\<not> exceeds_str_limit 7"
    by (simp add: exceeds_str_limit_def int_max_str_digits_def str_nat.simps)
  have m: "lit ''Invalid note: '' @ py_join (lit '', '') (violated_messages (lit ''SA'') True True 7)
     = lit ''Invalid note: 'SA' cannot be komal. Only RE, GA, DHA, NI can be komal, 'SA' cannot be tivra. Only MA can be tivra, Note cannot be both komal and tivra, Octave 7 out of range. Must be between -3 and +3''"
    by (simp add: violated_messages_def valid_bases_def komal_bases_def lit_def msg_komal_def
        msg_tivra_def msg_both_def py_str_def str_nat.simps)
  from Note_init_rules [of ascii_db "lit ''re''" True False "- 2"
      "\<lparr>base = lit ''RE'', komal = True, tivra = False, octave = - 2\<rparr>"] r1
  have a: "Note_init ascii_db (lit ''re'') True False (- 2)
       = Inr \<lparr>base = lit ''RE'', komal = True, tivra = False, octave = - 2\<rparr>"
    by (simp add: u1)
  from Note_init_rules [of ascii_db "lit ''sa''" True True 7] r2 x
  have b: "Note_init ascii_db (lit ''sa'') True True 7
       = Inl (ValueError (lit ''Invalid note: ''
                   @ py_join (lit '', '') (violated_messages (lit ''SA'') True True 7)))"
    by (simp add: u2)
  from a b r1 r2 x show ?thesis by (simp only: u1 u2 m simp_thms)
qed

text \<open>
  C1 as stated fails: the note SA with the octave \<open>10 ^ 4300\<close> breaks the octave rule,
  and the error raised does not carry the message of that rule but the message of the
  digit limit.
\<close>

theorem Note_init_digits_counterexample:
  "\<not> rules_hold (py_upper ascii_db (lit ''SA'')) False False (10 ^ int_max_str_digits)
   \<and> Note_init ascii_db (lit ''SA'') False False (10 ^ int_max_str_digits)
       = Inl (ValueError msg_str_limit)
   \<and> \<not> prefix (lit ''Invalid note: '') msg_str_limit
   \<and> Note_init ascii_db (lit ''SA'') False False (10 ^ int_max_str_digits)
       \<noteq> Inl (ValueError (lit ''Invalid note: ''
              @ py_join (lit '', '')
                  (violated_messages (py_upper ascii_db (lit ''SA'')) False False
                     (10 ^ int_max_str_digits))))"
proof -
  have x: "exceeds_str_limit (10 ^ int_max_str_digits)"
    by (simp add: exceeds_str_limit_iff)
  then have r: "\<not> rules_hold (py_upper ascii_db (lit ''SA'')) False False (10 ^ int_max_str_digits)"
    by (rule exceeds_not_rules)
  with x have n: "Note_init ascii_db (lit ''SA'') False False (10 ^ int_max_str_digits)
       = Inl (ValueError msg_str_limit)"
    by (simp add: Note_init_cases)
  have p: "\<not> prefix (lit ''Invalid note: '') msg_str_limit"
    by (simp add: msg_str_limit_def lit_def)
  then have "msg_str_limit \<noteq> lit ''Invalid note: '' @ ms" for ms
    by (auto simp: prefix_def)
  with r n p show ?thesis by simp
qed

lemma valid_base_nonempty: "b \<in> set valid_bases \<Longrightarrow> b \<noteq> []"
  by (auto simp: valid_bases_def lit_def)

lemma to_notation_spec:
  assumes "base n \<noteq> []"
  shows "to_notation n = Inr (spec_render n)"
proof -
  from assms obtain c cs where b: "base n = c # cs" by (cases "base n") auto
  show ?thesis
    by (simp add: to_notation_def spec_render_def Let_def b)
qed




subsection \<open>Construction of a Taal\<close>

lemma find_in_range:
  "(find (\<lambda>pos. pos < 1 \<or> pos > tm) ps = None) = (\<forall>p \<in> set ps. 1 \<le> p \<and> p \<le> (tm::int))"
  by (auto simp: find_None_iff)

lemma Taal_post_init_iff:
  "Taal_post_init t = Inr t' \<longleftrightarrow>
     t' = t \<and> sum_list (vibhag_structure t) = total_matras t
     \<and> (\<forall>p \<in> set (khali_positions t). 1 \<le> p \<and> p \<le> total_matras t)
     \<and> (\<forall>p \<in> set (tali_positions t). 1 \<le> p \<and> p \<le> total_matras t)"
  by (auto simp: Taal_post_init_def find_in_range[symmetric] split: option.splits)

text \<open>
  C8, as amended. The constructor of a Taal succeeds exactly when the vibhags sum to
  \<open>total_matras\<close> and every khali and tali position lies between 1 and \<open>total_matras\<close>, and
  it returns the fields it was given; so \<open>total_matras\<close> is positive whenever a khali or
  tali position is listed. It makes no check that \<open>total_matras\<close> or a vibhag is positive.
\<close>

theorem Taal_post_init_checks:
  "(Taal_post_init t = Inr t' \<longleftrightarrow>
      t' = t \<and> sum_list (vibhag_structure t) = total_matras t
      \<and> (\<forall>p \<in> set (khali_positions t). 1 \<le> p \<and> p \<le> total_matras t)
      \<and> (\<forall>p \<in> set (tali_positions t). 1 \<le> p \<and> p \<le> total_matras t))
   \<and> (Taal_post_init t = Inr t' \<and> (khali_positions t \<noteq> [] \<or> tali_positions t \<noteq> [])
        \<longrightarrow> 0 < total_matras t')"
proof (intro conjI impI)
  show "Taal_post_init t = Inr t' \<longleftrightarrow>
      t' = t \<and> sum_list (vibhag_structure t) = total_matras t
      \<and> (\<forall>p \<in> set (khali_positions t). 1 \<le> p \<and> p \<le> total_matras t)
      \<and> (\<forall>p \<in> set (tali_positions t). 1 \<le> p \<and> p \<le> total_matras t)"
    by (rule Taal_post_init_iff)
next
  assume a: "Taal_post_init t = Inr t' \<and> (khali_positions t \<noteq> [] \<or> tali_positions t \<noteq> [])"
  then have t: "t' = t" and k: "\<forall>p \<in> set (khali_positions t). 1 \<le> p \<and> p \<le> total_matras t"
    and l: "\<forall>p \<in> set (tali_positions t). 1 \<le> p \<and> p \<le> total_matras t"
    by (simp_all add: Taal_post_init_iff)
  from a obtain p where "p \<in> set (khali_positions t) \<or> p \<in> set (tali_positions t)"
    by (cases "khali_positions t"; cases "tali_positions t") auto
  with k l have "1 \<le> p \<and> p \<le> total_matras t" by blast
  with t show "0 < total_matras t'" by simp
qed

theorem Taal_post_init_checks_witness:
  "Taal_post_init TEENTAAL = Inr TEENTAAL \<and> khali_positions TEENTAAL \<noteq> []
   \<and> 0 < total_matras TEENTAAL"
proof -
  have c: "sum_list (vibhag_structure TEENTAAL) = total_matras TEENTAAL
      \<and> (\<forall>p \<in> set (khali_positions TEENTAAL). 1 \<le> p \<and> p \<le> total_matras TEENTAAL)
      \<and> (\<forall>p \<in> set (tali_positions TEENTAAL). 1 \<le> p \<and> p \<le> total_matras TEENTAAL)"
    by (simp add: TEENTAAL_def)
  have k: "khali_positions TEENTAAL \<noteq> []" by (simp add: TEENTAAL_def)
  from Taal_post_init_checks [of TEENTAAL TEENTAAL] c
  have i: "Taal_post_init TEENTAAL = Inr TEENTAAL" by blast
  with Taal_post_init_checks [of TEENTAAL TEENTAAL] k
  have "0 < total_matras TEENTAAL" by blast
  with i k show ?thesis by simp
qed

text \<open>
  C8 as stated fails: a Taal of 0 beats with no vibhag is constructed, and so is a Taal
  of 4 beats whose vibhags are 5 and -1.
\<close>

theorem Taal_positive_counterexample:
  "Taal_post_init \<lparr>name = lit ''zero'', display_name = lit ''Zero'', total_matras = 0,
       vibhag_structure = [], sam_position = 1, khali_positions = [], tali_positions = [],
       bols = None\<rparr>
     = Inr \<lparr>name = lit ''zero'', display_name = lit ''Zero'', total_matras = 0,
       vibhag_structure = [], sam_position = 1, khali_positions = [], tali_positions = [],
       bols = None\<rparr>
   \<and> Taal_post_init \<lparr>name = lit ''odd'', display_name = lit ''Odd'', total_matras = 4,
       vibhag_structure = [5, - 1], sam_position = 1, khali_positions = [], tali_positions = [1],
       bols = None\<rparr>
     = Inr \<lparr>name = lit ''odd'', display_name = lit ''Odd'', total_matras = 4,
       vibhag_structure = [5, - 1], sam_position = 1, khali_positions = [], tali_positions = [1],
       bols = None\<rparr>"
  by (simp add: Taal_post_init_def)

subsection \<open>Cells and grids\<close>

lemma py_strip_empty: "py_strip [] = []"
  by (simp add: py_strip_def)

lemma py_strip_dash: "py_strip (lit ''-'') = lit ''-''"
  by (simp add: py_strip_def lit_def py_isspace_def)

lemma lit_dash_nonempty: "lit ''-'' \<noteq> []"
  by (simp add: lit_def)

lemma get_matra_symbol_ok:
  assumes "Taal_post_init t = Inr t"
  shows "\<exists>s. get_matra_symbol t m = Inr s"
proof -
  from assms have "\<forall>p \<in> set (tali_positions t). 1 \<le> p \<and> p \<le> total_matras t"
    by (simp add: Taal_post_init_iff)
  then show ?thesis
    by (auto simp: get_matra_symbol_def get_vibhag_for_matra_def is_tali_def split: option.splits)
qed

lemma make_cells_ok:
  assumes "\<And>m. \<exists>s. get_matra_symbol t m = Inr s"
  shows "\<exists>cells. make_cells t vn m k = Inr cells \<and> length cells = k"
proof (induction k arbitrary: m)
  case 0
  show ?case by simp
next
  case (Suc k)
  from assms obtain s where s: "get_matra_symbol t m = Inr s" by blast
  from Suc obtain cells where "make_cells t vn (m + 1) k = Inr cells" "length cells = k" by blast
  with s show ?case by simp
qed

lemma initialize_loop_ok:
  assumes "\<And>m. \<exists>s. get_matra_symbol t m = Inr s"
  shows "\<exists>ms vs. initialize_loop t i m xs = Inr (ms, vs) \<and> length ms = sum_list (map nat xs)"
proof (induction xs arbitrary: i m)
  case Nil
  show ?case by simp
next
  case (Cons x xs)
  from make_cells_ok [OF assms] obtain cells
    where c: "make_cells t (int i + 1) m (nat x) = Inr cells" "length cells = nat x" by blast
  from Cons obtain ms vs
    where l: "initialize_loop t (Suc i) (m + int (nat x)) xs = Inr (ms, vs)"
      "length ms = sum_list (map nat xs)" by blast
  from c l show ?case by simp
qed

lemma sum_list_le_nat: "sum_list xs \<le> int (sum_list (map nat xs))"
  by (induction xs) auto

lemma BeatGrid_init_wf:
  assumes "Taal_post_init t = Inr t"
  shows "\<exists>g. BeatGrid_init t = Inr g \<and> taal g = t \<and> grid_wf g
           \<and> length (matras g) = sum_list (map nat (vibhag_structure t))"
proof -
  from initialize_loop_ok [OF get_matra_symbol_ok [OF assms]] obtain ms vs
    where l: "initialize_loop t 0 1 (vibhag_structure t) = Inr (ms, vs)"
      "length ms = sum_list (map nat (vibhag_structure t))" by blast
  from assms have "sum_list (vibhag_structure t) = total_matras t"
    by (simp add: Taal_post_init_iff)
  with sum_list_le_nat [of "vibhag_structure t"] l(2)
  have "total_matras t \<le> int (length ms)" by simp
  with l show ?thesis by (simp add: BeatGrid_init_def grid_wf_def)
qed

lemma DADRA_ok: "Taal_post_init DADRA = Inr DADRA"
  by (simp add: Taal_post_init_iff DADRA_def)

lemma set_swars_blank:
  "set_swars db m [] = m\<lparr>swars := [], rendered_notation := []\<rparr>"
  by (simp add: set_swars_def render_notation_def py_strip_empty lit_def)

lemma set_swars_dash:
  "set_swars db m (lit ''-'') = m\<lparr>swars := [lit ''-''], rendered_notation := lit ''-''\<rparr>"
  by (simp add: set_swars_def render_notation_def py_strip_dash render_swar_def)

lemma set_matra_swars_in_range:
  assumes "grid_wf g" "1 \<le> beat" "beat \<le> total_matras (taal g)"
  shows "set_matra_swars db g beat s =
     Inr (g\<lparr>matras := (matras g)[nat (beat - 1) := set_swars db (matras g ! nat (beat - 1)) s]\<rparr>, True)"
  using assms by (auto simp: set_matra_swars_def grid_wf_def)

lemma rendered_parts_fields: "rendered_parts g = spec_fields (matras g)"
  by (simp add: rendered_parts_def spec_fields_def get_display_text_def)

lemma make_cells_blank:
  "make_cells t vn m k = Inr cells \<Longrightarrow>
   \<forall>c \<in> set cells. swars c = [] \<and> rendered_notation c = []"
proof (induction k arbitrary: m cells)
  case 0
  then show ?case by simp
next
  case (Suc k)
  then show ?case by (auto split: sum.splits)
qed

lemma initialize_loop_blank:
  "initialize_loop t i m xs = Inr (ms, vs) \<Longrightarrow>
   \<forall>c \<in> set ms. swars c = [] \<and> rendered_notation c = []"
proof (induction xs arbitrary: i m ms vs)
  case Nil
  then show ?case by simp
next
  case (Cons x xs)
  from Cons.prems obtain cells ms' vs' where
    c: "make_cells t (int i + 1) m (nat x) = Inr cells" and
    l: "initialize_loop t (Suc i) (m + int (nat x)) xs = Inr (ms', vs')" and
    m: "ms = cells @ ms'"
    by (auto split: sum.splits)
  from make_cells_blank [OF c] Cons.IH [OF l] m show ?case by auto
qed

lemma blank_fields:
  "\<forall>c \<in> set cells. rendered_notation c = [] \<Longrightarrow>
   spec_fields cells = replicate (length cells) (lit ''-'')"
  by (induction cells) (simp_all add: spec_fields_def)

lemma BeatGrid_init_blank:
  assumes "BeatGrid_init t = Inr g"
  shows "spec_fields (matras g) = replicate (length (matras g)) (lit ''-'')"
proof -
  from assms obtain vs where "initialize_loop t 0 1 (vibhag_structure t) = Inr (matras g, vs)"
    by (auto simp: BeatGrid_init_def split: sum.splits)
  then have "\<forall>c \<in> set (matras g). swars c = [] \<and> rendered_notation c = []"
    by (rule initialize_loop_blank)
  then show ?thesis by (intro blank_fields) simp
qed

text \<open>
  C10. On a grid, for a beat in range, setting the cell to the empty text and setting it
  to the continuation marker both succeed; the first leaves the cell empty and the second
  leaves it holding the marker alone. Either way the rendered line is the fields of the
  grid as it was, with the field of that beat replaced by "-", joined by single spaces:
  the two rendered lines are the same string.
\<close>

theorem rendering_blank_vs_continuation:
  assumes "grid_wf g" and "1 \<le> beat" and "beat \<le> total_matras (taal g)"
  shows "\<exists>g1 g2. set_matra_swars db g beat [] = Inr (g1, True)
           \<and> set_matra_swars db g beat (lit ''-'') = Inr (g2, True)
           \<and> is_empty (matras g1 ! nat (beat - 1))
           \<and> swars (matras g2 ! nat (beat - 1)) = [lit ''-'']
           \<and> rendered_parts g1 ! nat (beat - 1) = lit ''-''
           \<and> rendered_parts g2 ! nat (beat - 1) = lit ''-''
           \<and> nat (beat - 1) < length (spec_fields (matras g))
           \<and> get_rendered_notation g1
               = py_join (lit '' '') ((spec_fields (matras g))[nat (beat - 1) := lit ''-''])
           \<and> get_rendered_notation g2
               = py_join (lit '' '') ((spec_fields (matras g))[nat (beat - 1) := lit ''-''])
           \<and> get_rendered_notation g1 = get_rendered_notation g2"
proof -
  let ?i = "nat (beat - 1)"
  from assms have i: "?i < length (matras g)" by (auto simp: grid_wf_def)
  let ?g1 = "g\<lparr>matras := (matras g)[?i := set_swars db (matras g ! ?i) []]\<rparr>"
  let ?g2 = "g\<lparr>matras := (matras g)[?i := set_swars db (matras g ! ?i) (lit ''-'')]\<rparr>"
  have 1: "set_matra_swars db g beat [] = Inr (?g1, True)"
    using assms by (rule set_matra_swars_in_range)
  have 2: "set_matra_swars db g beat (lit ''-'') = Inr (?g2, True)"
    using assms by (rule set_matra_swars_in_range)
  have p1: "rendered_parts ?g1 = (rendered_parts g)[?i := lit ''-'']"
    by (simp add: rendered_parts_def map_update set_swars_blank get_display_text_def)
  have p2: "rendered_parts ?g2 = (rendered_parts g)[?i := lit ''-'']"
    by (simp add: rendered_parts_def map_update set_swars_dash get_display_text_def lit_dash_nonempty)
  have l: "?i < length (rendered_parts g)" using i by (simp add: rendered_parts_def)
  have lf: "?i < length (spec_fields (matras g))" using i by (simp add: spec_fields_def)
  have e: "is_empty (matras ?g1 ! ?i)" using i by (simp add: set_swars_blank is_empty_def)
  have d: "swars (matras ?g2 ! ?i) = [lit ''-'']" using i by (simp add: set_swars_dash)
  have n1: "get_rendered_notation ?g1
      = py_join (lit '' '') ((spec_fields (matras g))[?i := lit ''-''])"
    unfolding get_rendered_notation_def p1 by (simp only: rendered_parts_fields)
  have n2: "get_rendered_notation ?g2
      = py_join (lit '' '') ((spec_fields (matras g))[?i := lit ''-''])"
    unfolding get_rendered_notation_def p2 by (simp only: rendered_parts_fields)
  have "get_rendered_notation ?g1 = get_rendered_notation ?g2"
    by (simp only: n1 n2)
  moreover have "rendered_parts ?g1 ! ?i = lit ''-''" using l by (simp only: p1 nth_list_update_eq)
  moreover have "rendered_parts ?g2 ! ?i = lit ''-''" using l by (simp only: p2 nth_list_update_eq)
  ultimately show ?thesis using 1 2 e d lf n1 n2 by blast
qed

theorem rendering_blank_vs_continuation_witness:
  "\<exists>g. BeatGrid_init DADRA = Inr g \<and> grid_wf g \<and> 1 \<le> (4::int) \<and> 4 \<le> total_matras (taal g)
     \<and> (\<exists>g1 g2. set_matra_swars ascii_db g 4 [] = Inr (g1, True)
           \<and> set_matra_swars ascii_db g 4 (lit ''-'') = Inr (g2, True)
           \<and> is_empty (matras g1 ! 3)
           \<and> swars (matras g2 ! 3) = [lit ''-'']
           \<and> get_rendered_notation g1 = lit ''- - - - - -''
           \<and> get_rendered_notation g2 = lit ''- - - - - -'')"
proof -
  from BeatGrid_init_wf [OF DADRA_ok] obtain g
    where g: "BeatGrid_init DADRA = Inr g" "taal g = DADRA" "grid_wf g"
      and "length (matras g) = sum_list (map nat (vibhag_structure DADRA))" by blast
  then have len: "length (matras g) = 6" by (simp add: DADRA_def)
  from g(2) have r: "1 \<le> (4::int)" "4 \<le> total_matras (taal g)" by (simp_all add: DADRA_def)
  from BeatGrid_init_blank [OF g(1)] len
  have f: "spec_fields (matras g) = replicate 6 (lit ''-'')" by simp
  have j: "py_join (lit '' '') ((replicate 6 (lit ''-''))[3 := lit ''-''])
      = lit ''- - - - - -''"
    by (simp add: eval_nat_numeral lit_def)
  from rendering_blank_vs_continuation [OF g(3) r, of ascii_db]
  obtain g1 g2 where
    "set_matra_swars ascii_db g 4 [] = Inr (g1, True)"
    "set_matra_swars ascii_db g 4 (lit ''-'') = Inr (g2, True)"
    "is_empty (matras g1 ! nat (4 - 1))"
    "swars (matras g2 ! nat (4 - 1)) = [lit ''-'']"
    "get_rendered_notation g1
       = py_join (lit '' '') ((spec_fields (matras g))[nat (4 - 1) := lit ''-''])"
    "get_rendered_notation g2
       = py_join (lit '' '') ((spec_fields (matras g))[nat (4 - 1) := lit ''-''])"
    by blast
  then have "set_matra_swars ascii_db g 4 [] = Inr (g1, True)
           \<and> set_matra_swars ascii_db g 4 (lit ''-'') = Inr (g2, True)
           \<and> is_empty (matras g1 ! 3)
           \<and> swars (matras g2 ! 3) = [lit ''-'']
           \<and> get_rendered_notation g1 = lit ''- - - - - -''
           \<and> get_rendered_notation g2 = lit ''- - - - - -''"
    by (simp add: f j)
  with g(1,3) r show ?thesis by blast
qed

subsection \<open>Splitting on whitespace\<close>

lemma split_ws_tokens:
  "tok \<in> set (split_ws cur s) \<Longrightarrow> \<forall>c \<in> set cur. \<not> py_isspace c
     \<Longrightarrow> tok \<noteq> [] \<and> (\<forall>c \<in> set tok. \<not> py_isspace c)"
proof (induction s arbitrary: cur)
  case Nil
  then show ?case by (auto split: if_splits)
next
  case (Cons c cs)
  show ?case
  proof (cases "py_isspace c")
    case True
    with Cons.prems have "tok = cur \<and> cur \<noteq> [] \<or> tok \<in> set (split_ws [] cs)"
      by (auto split: if_splits)
    then show ?thesis
    proof
      assume "tok = cur \<and> cur \<noteq> []"
      with Cons.prems(2) show ?thesis by simp
    next
      assume "tok \<in> set (split_ws [] cs)"
      then show ?thesis using Cons.IH [of "[]"] by simp
    qed
  next
    case False
    with Cons.prems have "tok \<in> set (split_ws (cur @ [c]) cs)" by simp
    moreover from False Cons.prems(2) have "\<forall>x \<in> set (cur @ [c]). \<not> py_isspace x" by simp
    ultimately show ?thesis by (rule Cons.IH)
  qed
qed

lemma py_split_tokens:
  "tok \<in> set (py_split s) \<Longrightarrow> tok \<noteq> [] \<and> (\<forall>c \<in> set tok. \<not> py_isspace c)"
  unfolding py_split_def using split_ws_tokens [of tok "[]" s] by simp

lemma split_ws_no_space:
  "\<forall>c \<in> set t. \<not> py_isspace c \<Longrightarrow> split_ws cur t = (if cur @ t = [] then [] else [cur @ t])"
  by (induction t arbitrary: cur) auto

lemma py_split_token:
  "tok \<noteq> [] \<Longrightarrow> \<forall>c \<in> set tok. \<not> py_isspace c \<Longrightarrow> py_split tok = [tok]"
  by (simp add: py_split_def split_ws_no_space)

lemma dropWhile_none: "\<forall>c \<in> set t. \<not> P c \<Longrightarrow> dropWhile P t = t"
  by (cases t) auto

lemma py_strip_token: "\<forall>c \<in> set tok. \<not> py_isspace c \<Longrightarrow> py_strip tok = tok"
  by (simp add: py_strip_def dropWhile_none)



lemma py_split_empty: "py_split [] = []"
  by (simp add: py_split_def)

subsection \<open>Parsing a sequence\<close>

lemma note_of_spec_cases:
  "(\<exists>note. note_of_spec db part = Inr note) \<or> (\<exists>e. note_of_spec db part = Inl (ValueError e))"
  by (auto simp: note_of_spec_def Note_init_cases split: prod.splits)

lemma py_in_empty: "pat \<noteq> [] \<Longrightarrow> \<not> py_in pat []"
  by simp

lemma parse_note_spec_empty: "parse_note_spec db [] = ([], False, False, 0)"
  by (simp add: parse_note_spec_def py_strip_empty py_upper_def lit_def)

lemma note_of_spec_empty: "\<exists>e. note_of_spec db [] = Inl (ValueError e)"
  by (simp add: note_of_spec_def parse_note_spec_empty Note_init_cases rules_hold_def
      py_upper_def valid_bases_def lit_def)

lemma constructed_notes_Cons:
  "constructed_notes db (tok # toks) =
     (case note_of_spec db tok of Inr note \<Rightarrow> [note] | Inl e \<Rightarrow> []) @ constructed_notes db toks"
  by (simp add: constructed_notes_def List.map_filter_simps split: sum.splits)

lemma constructed_notes_Nil: "constructed_notes db [] = []"
  by (simp add: constructed_notes_def List.map_filter_simps)

lemma parse_loop_eq:
  "parse_loop db acc toks = Inr (acc @ constructed_notes db toks)"
proof (induction toks arbitrary: acc)
  case Nil
  show ?case by (simp add: constructed_notes_Nil)
next
  case (Cons tok toks)
  from note_of_spec_cases [of db tok] show ?case
  proof (elim disjE exE)
    fix nt
    assume n: "note_of_spec db tok = Inr nt"
    with note_of_spec_empty [of db] have "tok \<noteq> []" by auto
    with n Cons show ?thesis by (simp add: constructed_notes_Cons)
  next
    fix e
    assume "note_of_spec db tok = Inl (ValueError e)"
    with Cons show ?thesis by (simp add: constructed_notes_Cons)
  qed
qed


lemmas text_eval = py_strip_def py_upper_def upper_char_def lit_def py_isspace_def
  py_split_def py_split_sep_def


subsection \<open>Rendering a cell\<close>

lemma parse_sequence_eq:
  "parse_sequence db s = Inr (constructed_notes db (py_split (py_strip s)))"
  by (simp add: parse_sequence_def parse_loop_eq)

lemma note_of_spec_valid:
  assumes "note_of_spec db tok = Inr n"
  shows "base n \<noteq> []"
proof -
  obtain b k t v where p: "parse_note_spec db tok = (b, k, t, v)"
    by (cases "parse_note_spec db tok") auto
  with assms have "Note_init db b k t v = Inr n" by (simp add: note_of_spec_def)
  then have "rules_hold (py_upper db b) k t v" and "base n = py_upper db b"
    by (auto simp: Note_init_cases split: if_splits)
  then show ?thesis by (simp add: rules_hold_def valid_base_nonempty)
qed

lemma constructed_notes_valid:
  "n \<in> set (constructed_notes db toks) \<Longrightarrow> base n \<noteq> []"
proof (induction toks)
  case Nil
  then show ?case by (simp add: constructed_notes_Nil)
next
  case (Cons tok toks)
  then show ?case
    by (auto simp: constructed_notes_Cons note_of_spec_valid split: sum.splits)
qed

lemma to_notation_all_valid:
  "\<forall>n \<in> set ns. base n \<noteq> [] \<Longrightarrow> to_notation_all ns = Inr (map spec_render ns)"
  by (induction ns) (simp_all add: to_notation_spec)

lemma render_swar_eq: "render_swar db tok = spec_render_token db tok"
proof -
  let ?ns = "constructed_notes db (py_split (py_strip tok))"
  have "to_notation_all ?ns = Inr (map spec_render ?ns)"
    by (rule to_notation_all_valid) (simp add: constructed_notes_valid)
  then show ?thesis
    by (simp add: render_swar_def spec_render_token_def parse_sequence_eq
        generate_notation_sequence_def)
qed

lemma render_swar_fun: "render_swar db = spec_render_token db"
  by (rule ext) (rule render_swar_eq)

lemma set_swars_eq:
  "set_swars db m s =
     m\<lparr>swars := spec_cell_swars s,
       rendered_notation := py_join (lit '' '') (map (spec_render_token db) (spec_cell_swars s))\<rparr>"
  by (simp add: set_swars_def render_notation_def spec_cell_swars_def render_swar_fun)

lemma spec_cell_swars_tokens:
  assumes "tok \<in> set (spec_cell_swars s)"
  shows "tok \<noteq> [] \<and> (\<forall>c \<in> set tok. \<not> py_isspace c)"
proof (cases "py_strip s = lit ''-''")
  case True
  with assms have "tok = lit ''-''" by (simp add: spec_cell_swars_def)
  then show ?thesis by (simp add: lit_def py_isspace_def)
next
  case False
  with assms have "tok \<in> set (py_split (py_strip s))"
    by (simp add: spec_cell_swars_def split: if_splits)
  then show ?thesis by (rule py_split_tokens)
qed

lemma spec_render_token_single:
  assumes "tok \<noteq> []" and "\<forall>c \<in> set tok. \<not> py_isspace c" and "tok \<noteq> lit ''-''"
  shows "spec_render_token db tok =
           (case note_of_spec db tok of Inr n \<Rightarrow> spec_render n | Inl e \<Rightarrow> tok)"
proof -
  from assms have "py_split (py_strip tok) = [tok]"
    by (simp add: py_strip_token py_split_token)
  with assms(3) show ?thesis
    by (simp add: spec_render_token_def parse_sequence_eq constructed_notes_Cons
        constructed_notes_Nil split: sum.splits)
qed

text \<open>
  C5. On a grid, \<open>set_matra_swars\<close> with a beat outside 1 to \<open>total_matras\<close> returns False
  without raising and leaves the grid as it was. With a beat in range it returns True and
  changes that one cell only: its swars become the marker alone when the stripped text is
  "-", the whitespace tokens of the text when it is not blank, and nothing when it is
  blank; its rendered notation becomes the renderings of those tokens joined by one
  space, where the marker renders as "-", a token from which notes are parsed renders as
  those notes, and any other token renders as itself. A token of a cell that is not the
  marker is one spec: it renders as its note when the note is constructed and as itself
  when it is not.
\<close>

theorem set_matra_swars_cell:
  assumes "grid_wf g"
  shows "(beat < 1 \<or> total_matras (taal g) < beat \<longrightarrow>
            set_matra_swars db g beat s = Inr (g, False))
       \<and> (1 \<le> beat \<and> beat \<le> total_matras (taal g) \<longrightarrow>
            set_matra_swars db g beat s =
              Inr (g\<lparr>matras := (matras g)
                     [nat (beat - 1) :=
                        (matras g ! nat (beat - 1))
                          \<lparr>swars := spec_cell_swars s,
                           rendered_notation :=
                             py_join (lit '' '')
                               (map (spec_render_token db) (spec_cell_swars s))\<rparr>]\<rparr>,
                   True))
       \<and> (\<forall>tok \<in> set (spec_cell_swars s). tok \<noteq> lit ''-'' \<longrightarrow>
            spec_render_token db tok =
              (case note_of_spec db tok of Inr n \<Rightarrow> spec_render n | Inl e \<Rightarrow> tok))"
proof -
  have a: "set_matra_swars db g beat s = Inr (g, False)"
    if "beat < 1 \<or> total_matras (taal g) < beat"
    using that by (auto simp: set_matra_swars_def)
  have b: "set_matra_swars db g beat s =
              Inr (g\<lparr>matras := (matras g)
                     [nat (beat - 1) :=
                        (matras g ! nat (beat - 1))
                          \<lparr>swars := spec_cell_swars s,
                           rendered_notation :=
                             py_join (lit '' '')
                               (map (spec_render_token db) (spec_cell_swars s))\<rparr>]\<rparr>,
                   True)"
    if "1 \<le> beat \<and> beat \<le> total_matras (taal g)"
    using that assms by (simp add: set_matra_swars_in_range set_swars_eq)
  have c: "spec_render_token db tok =
              (case note_of_spec db tok of Inr n \<Rightarrow> spec_render n | Inl e \<Rightarrow> tok)"
    if "tok \<in> set (spec_cell_swars s)" and "tok \<noteq> lit ''-''" for tok
    using spec_cell_swars_tokens [OF that(1)] that(2) by (simp add: spec_render_token_single)
  from a b c show ?thesis by blast
qed

theorem set_matra_swars_cell_witness:
  "\<exists>g. BeatGrid_init DADRA = Inr g \<and> grid_wf g
     \<and> total_matras (taal g) < 7 \<and> set_matra_swars ascii_db g 7 (lit ''SA'') = Inr (g, False)
     \<and> 1 \<le> (2::int) \<and> 2 \<le> total_matras (taal g)
     \<and> (\<exists>g'. set_matra_swars ascii_db g 2 (lit '' re_k - xx '') = Inr (g', True)
           \<and> swars (matras g' ! 1) = [lit ''re_k'', lit ''-'', lit ''xx'']
           \<and> rendered_notation (matras g' ! 1) = [82, 818, 69, 818, 32, 45, 32, 120, 120])"
proof -
  from BeatGrid_init_wf [OF DADRA_ok] obtain g
    where g: "BeatGrid_init DADRA = Inr g" "taal g = DADRA" "grid_wf g"
      and "length (matras g) = sum_list (map nat (vibhag_structure DADRA))" by blast
  then have len: "1 < length (matras g)" by (simp add: DADRA_def)
  from g(2) have r: "total_matras (taal g) < 7" "1 \<le> (2::int)" "2 \<le> total_matras (taal g)"
    by (simp_all add: DADRA_def)
  have sw: "spec_cell_swars (lit '' re_k - xx '') = [lit ''re_k'', lit ''-'', lit ''xx'']"
    by (simp add: spec_cell_swars_def text_eval)
  have p1: "parse_note_spec ascii_db (lit ''re_k'') = (lit ''RE'', True, False, 0)"
    by (simp add: parse_note_spec_def text_eval Let_def)
  have p2: "parse_note_spec ascii_db (lit ''xx'') = (lit ''XX'', False, False, 0)"
    by (simp add: parse_note_spec_def text_eval Let_def)
  have u: "py_upper ascii_db (lit ''RE'') = lit ''RE''" "py_upper ascii_db (lit ''XX'') = lit ''XX''"
    by (simp_all add: text_eval)
  have rh: "rules_hold (lit ''RE'') True False 0" "\<not> rules_hold (lit ''XX'') False False 0"
    by (simp_all add: rules_hold_def valid_bases_def komal_bases_def lit_def)
  have n1: "note_of_spec ascii_db (lit ''re_k'')
      = Inr \<lparr>base = lit ''RE'', komal = True, tivra = False, octave = 0\<rparr>"
    by (simp add: note_of_spec_def p1 Note_init_cases u rh)
  have n2: "\<exists>e. note_of_spec ascii_db (lit ''xx'') = Inl e"
    by (simp add: note_of_spec_def p2 Note_init_cases u rh)
  have ne: "lit ''re_k'' \<noteq> lit ''-''" "lit ''xx'' \<noteq> lit ''-''"
    by (simp_all add: lit_def)
  note t = set_matra_swars_cell [OF g(3), of _ ascii_db]
  from t [of 7 "lit ''SA''"] r(1)
  have a: "set_matra_swars ascii_db g 7 (lit ''SA'') = Inr (g, False)"
    by blast
  let ?c = "(matras g ! nat (2 - 1))
              \<lparr>swars := spec_cell_swars (lit '' re_k - xx ''),
               rendered_notation :=
                 py_join (lit '' '')
                   (map (spec_render_token ascii_db) (spec_cell_swars (lit '' re_k - xx '')))\<rparr>"
  let ?g' = "g\<lparr>matras := (matras g)[nat (2 - 1) := ?c]\<rparr>"
  from t [of 2 "lit '' re_k - xx ''"] r(2,3)
  have b: "set_matra_swars ascii_db g 2 (lit '' re_k - xx '') = Inr (?g', True)"
    by blast
  from t [of 2 "lit '' re_k - xx ''"] sw ne n1
  have t1: "spec_render_token ascii_db (lit ''re_k'') = [82, 818, 69, 818]"
    by (simp add: spec_render_def COMBINING_UNDERLINE_def lit_def)
  from t [of 2 "lit '' re_k - xx ''"] sw ne n2
  have t2: "spec_render_token ascii_db (lit ''xx'') = lit ''xx''"
    by auto
  have t3: "spec_render_token ascii_db (lit ''-'') = lit ''-''"
    by (simp add: spec_render_token_def)
  have c: "swars (matras ?g' ! 1) = [lit ''re_k'', lit ''-'', lit ''xx'']"
    using len by (simp add: sw)
  have d: "rendered_notation (matras ?g' ! 1) = [82, 818, 69, 818, 32, 45, 32, 120, 120]"
    using len by (simp add: sw t1 t2 t3) (simp add: lit_def)
  from g(1,3) r a b c d show ?thesis by blast
qed

subsection \<open>Filling a grid from a sequence\<close>

lemma set_swars_token:
  assumes "tok \<noteq> []" and "\<forall>c \<in> set tok. \<not> py_isspace c"
  shows "set_swars db m tok = m\<lparr>swars := [tok], rendered_notation := spec_render_token db tok\<rparr>"
proof -
  from assms have "py_strip tok = tok" and "py_split tok = [tok]"
    by (simp_all add: py_strip_token py_split_token)
  with assms(1) have "spec_cell_swars tok = [tok]"
    by (simp add: spec_cell_swars_def)
  then show ?thesis by (simp add: set_swars_eq)
qed

lemma fill_loop_ok:
  "i + length toks \<le> length ms \<Longrightarrow> int (i + length toks) \<le> tm \<Longrightarrow>
   \<exists>ms'. fill_loop db tm i toks ms = (ms', None) \<and> length ms' = length ms
     \<and> (\<forall>j < length ms. ms' ! j =
           (if i \<le> j \<and> j < i + length toks then set_swars db (ms ! j) (toks ! (j - i))
            else ms ! j))"
proof (induction toks arbitrary: i ms)
  case Nil
  then show ?case by auto
next
  case (Cons swar rest)
  let ?x = "set_swars db (ms ! i) swar"
  from Cons.prems have i: "i < length ms" "int i < tm" by simp_all
  from Cons.prems have "Suc i + length rest \<le> length (ms[i := ?x])"
    and "int (Suc i + length rest) \<le> tm" by simp_all
  from Cons.IH [OF this] obtain ms' where
    f: "fill_loop db tm (Suc i) rest (ms[i := ?x]) = (ms', None)" and
    l: "length ms' = length ms" and
    n: "\<forall>j < length ms. ms' ! j =
           (if Suc i \<le> j \<and> j < Suc i + length rest
            then set_swars db (ms[i := ?x] ! j) (rest ! (j - Suc i))
            else ms[i := ?x] ! j)"
    by auto
  have "ms' ! j =
           (if i \<le> j \<and> j < i + length (swar # rest)
            then set_swars db (ms ! j) ((swar # rest) ! (j - i))
            else ms ! j)" if "j < length ms" for j
  proof (cases "j = i")
    case True
    with n that show ?thesis by simp
  next
    case False
    with n that show ?thesis by (auto simp: nth_Cons')
  qed
  with f l i show ?case by simp
qed

lemma filter_prefix_count:
  assumes "n \<le> length xs" and "\<forall>j < length xs. P (xs ! j) \<longleftrightarrow> j < n"
  shows "length (filter P xs) = n"
proof -
  have "filter P (take n xs) = take n xs"
    using assms by (intro filter_True) (auto simp: in_set_conv_nth)
  moreover have "filter P (drop n xs) = []"
    using assms by (intro filter_False) (auto simp: in_set_conv_nth)
  moreover have "filter P xs = filter P (take n xs) @ filter P (drop n xs)"
    by (simp flip: filter_append)
  ultimately show ?thesis using assms(1) by simp
qed

lemma get_filled_count_length:
  "get_filled_count g = int (length (filter (\<lambda>m. \<not> is_empty m) (matras g)))"
  by (simp add: get_filled_count_def sum_list_triv)

lemma clear_grid_cells:
  "m \<in> set (matras (clear_grid g)) \<Longrightarrow> swars m = [] \<and> rendered_notation m = []"
  by (auto simp: clear_grid_def)

lemma clear_grid_count: "get_filled_count (clear_grid g) = 0"
  by (simp add: get_filled_count_length clear_grid_def is_empty_def filter_empty_conv o_def)

lemma fill_from_sequence_empty:
  assumes "py_split (py_strip s) = []"
  shows "fill_from_sequence db g s = (clear_grid g, Inr (True, lit ''Grid cleared''))"
  using assms by (simp add: fill_from_sequence_def Let_def)

lemma fill_from_sequence_success:
  assumes wf: "grid_wf g" and le: "int (length (py_split (py_strip s))) \<le> total_matras (taal g)"
    and ne: "py_split (py_strip s) \<noteq> []"
  shows "\<exists>g'. fill_from_sequence db g s
              = (g', Inr (True, msg_filled (length (py_split (py_strip s)))))
           \<and> taal g' = taal g \<and> length (matras g') = length (matras g)
           \<and> get_filled_count g' = int (length (py_split (py_strip s)))
           \<and> (\<forall>i < length (py_split (py_strip s)).
                 swars (matras g' ! i) = [py_split (py_strip s) ! i]
                 \<and> rendered_notation (matras g' ! i)
                     = spec_render_token db (py_split (py_strip s) ! i))
           \<and> (\<forall>i. length (py_split (py_strip s)) \<le> i \<and> i < length (matras g') \<longrightarrow>
                 swars (matras g' ! i) = [] \<and> rendered_notation (matras g' ! i) = [])"
proof -
  let ?parts = "py_split (py_strip s)"
  let ?n = "length ?parts"
  let ?c = "clear_grid g"
  let ?ms = "matras ?c"
  have tc: "taal ?c = taal g" and lc: "length ?ms = length (matras g)"
    by (simp_all add: clear_grid_def)
  from wf le have nl: "?n \<le> length ?ms" by (simp add: grid_wf_def lc)
  from nl le fill_loop_ok [of 0 ?parts ?ms "total_matras (taal g)" db]
  obtain ms' where
    f: "fill_loop db (total_matras (taal g)) 0 ?parts ?ms = (ms', None)" and
    l: "length ms' = length ?ms" and
    n: "\<forall>j < length ?ms. ms' ! j =
           (if j < ?n then set_swars db (?ms ! j) (?parts ! j) else ?ms ! j)"
    by auto
  have tokens: "?parts ! j \<noteq> [] \<and> (\<forall>c \<in> set (?parts ! j). \<not> py_isspace c)" if "j < ?n" for j
    using that by (intro py_split_tokens [of _ "py_strip s"]) simp
  have filled: "swars (ms' ! j) = [?parts ! j]
      \<and> rendered_notation (ms' ! j) = spec_render_token db (?parts ! j)" if "j < ?n" for j
  proof -
    from that nl have "j < length ?ms" by simp
    with n that have "ms' ! j = set_swars db (?ms ! j) (?parts ! j)" by simp
    with tokens [OF that] show ?thesis by (simp add: set_swars_token)
  qed
  have rest: "swars (ms' ! j) = [] \<and> rendered_notation (ms' ! j) = []"
    if "?n \<le> j" and "j < length ms'" for j
  proof -
    from that l have j: "j < length ?ms" by simp
    with n that have "ms' ! j = ?ms ! j" by simp
    moreover from j have "?ms ! j \<in> set ?ms" by (rule nth_mem)
    ultimately show ?thesis by (simp add: clear_grid_cells)
  qed
  have "\<forall>j < length ms'. (\<not> is_empty (ms' ! j)) \<longleftrightarrow> j < ?n"
  proof (intro allI impI)
    fix j assume "j < length ms'"
    with filled [of j] rest [of j] show "(\<not> is_empty (ms' ! j)) \<longleftrightarrow> j < ?n"
      by (cases "j < ?n") (simp_all add: is_empty_def)
  qed
  with nl l have cnt: "length (filter (\<lambda>m. \<not> is_empty m) ms') = ?n"
    by (intro filter_prefix_count) simp_all
  let ?g' = "?c\<lparr>matras := ms'\<rparr>"
  have props: "taal ?g' = taal g" "length (matras ?g') = length (matras g)"
    "get_filled_count ?g' = int ?n"
    using tc lc l cnt by (simp_all add: get_filled_count_length)
  from ne le f have r: "fill_from_sequence db g s = (?g', Inr (True, msg_filled ?n))"
    by (simp add: fill_from_sequence_def Let_def tc)
  with props filled rest show ?thesis
    by (intro exI [of _ ?g']) simp
qed

lemma fill_from_sequence_failure:
  assumes "total_matras (taal g) < int (length (py_split (py_strip s)))"
    and "py_split (py_strip s) \<noteq> []"
  shows "fill_from_sequence db g s
           = (clear_grid g,
              if exceeds_str_limit (total_matras (taal g)) then Inl (ValueError msg_str_limit)
              else Inr (False,
                        lit ''Too many swars ('' @ py_str (int (length (py_split (py_strip s))))
                          @ lit '') for '' @ display_name (taal g) @ lit '' (''
                          @ py_str (total_matras (taal g)) @ lit '' matras)''))"
proof -
  have "taal (clear_grid g) = taal g" by (simp add: clear_grid_def)
  with assms show ?thesis
    by (simp add: fill_from_sequence_def Let_def msg_too_many_def py_format_def)
qed

text \<open>
  C4, as amended. \<open>fill_from_sequence\<close> first clears every cell. When the text has no
  whitespace token it returns True with "Grid cleared", whatever the beat count of the
  Taal is. When it has at least one token and more tokens than the Taal has beats, the
  grid is left cleared, no cell filled, and the call returns False with the message
  "Too many swars (n) for <display name> (<beats> matras)"; it raises the interpreter's
  \<open>ValueError\<close> instead when the beat count has more than 4300 digits and cannot be shown.
  When it has at least one token and at most as many as the Taal has beats, the call
  returns True with "Filled n matras", cell \<open>i\<close> holds the \<open>i\<close>-th token alone, rendered,
  for each token, every later cell is empty, and the number of filled cells is the number
  of tokens. No token of the split is empty.
\<close>

theorem fill_from_sequence_result:
  assumes "grid_wf g"
  shows
    "(py_split (py_strip s) = [] \<longrightarrow>
        fill_from_sequence db g s = (clear_grid g, Inr (True, lit ''Grid cleared'')))
     \<and> (py_split (py_strip s) \<noteq> []
          \<and> total_matras (taal g) < int (length (py_split (py_strip s))) \<longrightarrow>
          fill_from_sequence db g s
            = (clear_grid g,
               if exceeds_str_limit (total_matras (taal g)) then Inl (ValueError msg_str_limit)
               else Inr (False,
                         lit ''Too many swars ('' @ py_str (int (length (py_split (py_strip s))))
                           @ lit '') for '' @ display_name (taal g) @ lit '' (''
                           @ py_str (total_matras (taal g)) @ lit '' matras)'')))
     \<and> get_filled_count (clear_grid g) = 0
     \<and> (\<forall>m \<in> set (matras (clear_grid g)). swars m = [] \<and> rendered_notation m = [])
     \<and> (py_split (py_strip s) \<noteq> []
          \<and> int (length (py_split (py_strip s))) \<le> total_matras (taal g) \<longrightarrow>
          (\<exists>g'. fill_from_sequence db g s
                  = (g', Inr (True, msg_filled (length (py_split (py_strip s)))))
             \<and> taal g' = taal g \<and> length (matras g') = length (matras g)
             \<and> get_filled_count g' = int (length (py_split (py_strip s)))
             \<and> (\<forall>i < length (py_split (py_strip s)).
                   swars (matras g' ! i) = [py_split (py_strip s) ! i]
                   \<and> rendered_notation (matras g' ! i)
                       = spec_render_token db (py_split (py_strip s) ! i))
             \<and> (\<forall>i. length (py_split (py_strip s)) \<le> i \<and> i < length (matras g') \<longrightarrow>
                   swars (matras g' ! i) = [] \<and> rendered_notation (matras g' ! i) = [])))
     \<and> (exceeds_str_limit (total_matras (taal g))
          \<longleftrightarrow> 10 ^ int_max_str_digits \<le> \<bar>total_matras (taal g)\<bar>)
     \<and> (\<forall>tok \<in> set (py_split (py_strip s)). tok \<noteq> [])"
proof (intro conjI impI)
  assume "py_split (py_strip s) = []"
  then show "fill_from_sequence db g s = (clear_grid g, Inr (True, lit ''Grid cleared''))"
    by (rule fill_from_sequence_empty)
next
  assume "py_split (py_strip s) \<noteq> []
          \<and> total_matras (taal g) < int (length (py_split (py_strip s)))"
  then show "fill_from_sequence db g s
            = (clear_grid g,
               if exceeds_str_limit (total_matras (taal g)) then Inl (ValueError msg_str_limit)
               else Inr (False,
                         lit ''Too many swars ('' @ py_str (int (length (py_split (py_strip s))))
                           @ lit '') for '' @ display_name (taal g) @ lit '' (''
                           @ py_str (total_matras (taal g)) @ lit '' matras)''))"
    by (intro fill_from_sequence_failure) simp_all
next
  show "get_filled_count (clear_grid g) = 0" by (rule clear_grid_count)
  show "\<forall>m \<in> set (matras (clear_grid g)). swars m = [] \<and> rendered_notation m = []"
    using clear_grid_cells by blast
next
  assume "py_split (py_strip s) \<noteq> []
          \<and> int (length (py_split (py_strip s))) \<le> total_matras (taal g)"
  with assms show "\<exists>g'. fill_from_sequence db g s
                  = (g', Inr (True, msg_filled (length (py_split (py_strip s)))))
             \<and> taal g' = taal g \<and> length (matras g') = length (matras g)
             \<and> get_filled_count g' = int (length (py_split (py_strip s)))
             \<and> (\<forall>i < length (py_split (py_strip s)).
                   swars (matras g' ! i) = [py_split (py_strip s) ! i]
                   \<and> rendered_notation (matras g' ! i)
                       = spec_render_token db (py_split (py_strip s) ! i))
             \<and> (\<forall>i. length (py_split (py_strip s)) \<le> i \<and> i < length (matras g') \<longrightarrow>
                   swars (matras g' ! i) = [] \<and> rendered_notation (matras g' ! i) = [])"
    by (intro fill_from_sequence_success) simp_all
next
  show "exceeds_str_limit (total_matras (taal g))
          \<longleftrightarrow> 10 ^ int_max_str_digits \<le> \<bar>total_matras (taal g)\<bar>"
    by (rule exceeds_str_limit_iff)
next
  show "\<forall>tok \<in> set (py_split (py_strip s)). tok \<noteq> []"
    using py_split_tokens by blast
qed

theorem fill_from_sequence_result_witness:
  "\<exists>g. BeatGrid_init DADRA = Inr g \<and> grid_wf g
     \<and> py_split (py_strip (lit ''  '')) = []
     \<and> fill_from_sequence ascii_db g (lit ''  '') = (clear_grid g, Inr (True, lit ''Grid cleared''))
     \<and> py_split (py_strip (lit ''a b c d e f g'')) \<noteq> []
     \<and> total_matras (taal g) < int (length (py_split (py_strip (lit ''a b c d e f g''))))
     \<and> \<not> exceeds_str_limit (total_matras (taal g))
     \<and> fill_from_sequence ascii_db g (lit ''a b c d e f g'')
          = (clear_grid g,
             Inr (False,
                  lit ''Too many swars (7) for Dadra ('' @ [2342, 2366, 2342, 2352, 2366]
                    @ lit '') (6 matras)''))
     \<and> get_filled_count (clear_grid g) = 0
     \<and> py_split (py_strip (lit '' SA  - '')) \<noteq> []
     \<and> int (length (py_split (py_strip (lit '' SA  - '')))) \<le> total_matras (taal g)
     \<and> (\<exists>g'. fill_from_sequence ascii_db g (lit '' SA  - '')
                 = (g', Inr (True, lit ''Filled 2 matras''))
            \<and> get_filled_count g' = 2
            \<and> swars (matras g' ! 0) = [lit ''SA''] \<and> swars (matras g' ! 1) = [lit ''-'']
            \<and> swars (matras g' ! 2) = [])"
proof -
  from BeatGrid_init_wf [OF DADRA_ok] obtain g
    where g: "BeatGrid_init DADRA = Inr g" "taal g = DADRA" "grid_wf g"
      and "length (matras g) = sum_list (map nat (vibhag_structure DADRA))" by blast
  then have len: "length (matras g) = 6" by (simp add: DADRA_def)
  from g(2) have tm: "total_matras (taal g) = 6"
    and dn: "display_name (taal g) = lit ''Dadra ('' @ [2342, 2366, 2342, 2352, 2366] @ lit '')''"
    by (simp_all add: DADRA_def)
  have s0: "py_split (py_strip (lit ''  '')) = []"
    by (simp add: text_eval)
  have s1: "py_split (py_strip (lit ''a b c d e f g''))
      = [lit ''a'', lit ''b'', lit ''c'', lit ''d'', lit ''e'', lit ''f'', lit ''g'']"
    by (simp add: text_eval)
  have s2: "py_split (py_strip (lit '' SA  - '')) = [lit ''SA'', lit ''-'']"
    by (simp add: text_eval)
  have x: "\<not> exceeds_str_limit (total_matras (taal g))"
    by (simp add: tm small_not_exceeds)
  have m1: "lit ''Too many swars ('' @ py_str 7 @ lit '') for '' @ display_name (taal g)
        @ lit '' ('' @ py_str 6 @ lit '' matras)''
      = lit ''Too many swars (7) for Dadra ('' @ [2342, 2366, 2342, 2352, 2366]
          @ lit '') (6 matras)''"
    by (simp add: dn py_str_def str_nat.simps lit_def)
  have m2: "msg_filled 2 = lit ''Filled 2 matras''"
    by (simp add: msg_filled_def py_str_def str_nat.simps lit_def)
  have n1: "length (py_split (py_strip (lit ''a b c d e f g''))) = 7"
    by (simp add: s1)
  have n2: "length (py_split (py_strip (lit '' SA  - ''))) = 2"
    by (simp add: s2)
  have ne1: "py_split (py_strip (lit ''a b c d e f g'')) \<noteq> []"
    by (simp add: s1)
  have ne2: "py_split (py_strip (lit '' SA  - '')) \<noteq> []"
    by (simp add: s2)
  note t = fill_from_sequence_result [OF g(3), of _ ascii_db]
  from t [of "lit ''  ''"] s0
  have z: "fill_from_sequence ascii_db g (lit ''  '') = (clear_grid g, Inr (True, lit ''Grid cleared''))"
    by blast
  from t [of "lit ''a b c d e f g''"] tm x ne1
  have a: "fill_from_sequence ascii_db g (lit ''a b c d e f g'')
          = (clear_grid g,
             Inr (False,
                  lit ''Too many swars ('' @ py_str 7 @ lit '') for '' @ display_name (taal g)
                    @ lit '' ('' @ py_str 6 @ lit '' matras)''))"
    and b: "get_filled_count (clear_grid g) = 0"
    by (simp_all add: n1)
  from t [of "lit '' SA  - ''"] tm
  obtain g' where
    c: "fill_from_sequence ascii_db g (lit '' SA  - '') = (g', Inr (True, msg_filled 2))" and
    l: "length (matras g') = length (matras g)" and
    d: "get_filled_count g' = 2" and
    e: "\<forall>i < 2. swars (matras g' ! i) = [py_split (py_strip (lit '' SA  - '')) ! i]" and
    f: "\<forall>i. 2 \<le> i \<and> i < length (matras g') \<longrightarrow> swars (matras g' ! i) = []"
    by (auto simp add: n2 ne2)
  from e have e0: "swars (matras g' ! 0) = [lit ''SA'']" and e1: "swars (matras g' ! 1) = [lit ''-'']"
    by (simp_all add: s2)
  from f l len have e2: "swars (matras g' ! 2) = []" by simp
  from a have a': "fill_from_sequence ascii_db g (lit ''a b c d e f g'')
          = (clear_grid g,
             Inr (False,
                  lit ''Too many swars (7) for Dadra ('' @ [2342, 2366, 2342, 2352, 2366]
                    @ lit '') (6 matras)''))"
    by (simp only: m1)
  from c have c': "fill_from_sequence ascii_db g (lit '' SA  - '')
                 = (g', Inr (True, lit ''Filled 2 matras''))"
    by (simp only: m2)
  have r1: "total_matras (taal g) < int (length (py_split (py_strip (lit ''a b c d e f g''))))"
    by (simp add: tm n1)
  have r2: "int (length (py_split (py_strip (lit '' SA  - '')))) \<le> total_matras (taal g)"
    by (simp add: tm n2)
  from g(1,3) s0 z ne1 r1 x a' b ne2 r2 c' d e0 e1 e2 show ?thesis
    by blast
qed

lemma NEGATIVE_TAAL_grid:
  "Taal_post_init NEGATIVE_TAAL = Inr NEGATIVE_TAAL"
  "BeatGrid_init NEGATIVE_TAAL
     = Inr \<lparr>taal = NEGATIVE_TAAL, matras = [],
            vibhags = [\<lparr>group_vibhag_number = 1, group_matras = [], start_matra = 1,
                        end_matra = - 1\<rparr>]\<rparr>"
  by (simp_all add: Taal_post_init_def BeatGrid_init_def NEGATIVE_TAAL_def)

lemma HUGE_NEGATIVE_TAAL_grid:
  "Taal_post_init HUGE_NEGATIVE_TAAL = Inr HUGE_NEGATIVE_TAAL"
  "BeatGrid_init HUGE_NEGATIVE_TAAL
     = Inr \<lparr>taal = HUGE_NEGATIVE_TAAL, matras = [],
            vibhags = [\<lparr>group_vibhag_number = 1, group_matras = [], start_matra = 1,
                        end_matra = - (10 ^ int_max_str_digits)\<rparr>]\<rparr>"
  by (simp_all add: Taal_post_init_def BeatGrid_init_def HUGE_NEGATIVE_TAAL_def)

text \<open>
  C4 as stated fails on a grid whose Taal has a negative beat count, which the
  constructors accept. With -1 beat the empty text has more tokens (none) than the Taal
  has beats, and the call returns True. With \<open>- 10 ^ 4300\<close> beats the text "SA" has more
  tokens than the Taal has beats, and the call raises instead of returning False.
\<close>

theorem fill_from_sequence_negative_counterexample:
  "Taal_post_init NEGATIVE_TAAL = Inr NEGATIVE_TAAL
   \<and> BeatGrid_init NEGATIVE_TAAL
       = Inr \<lparr>taal = NEGATIVE_TAAL, matras = [],
              vibhags = [\<lparr>group_vibhag_number = 1, group_matras = [], start_matra = 1,
                          end_matra = - 1\<rparr>]\<rparr>
   \<and> total_matras NEGATIVE_TAAL < int (length (py_split (py_strip [])))
   \<and> fill_from_sequence ascii_db
        \<lparr>taal = NEGATIVE_TAAL, matras = [],
         vibhags = [\<lparr>group_vibhag_number = 1, group_matras = [], start_matra = 1,
                     end_matra = - 1\<rparr>]\<rparr> []
       = (\<lparr>taal = NEGATIVE_TAAL, matras = [],
           vibhags = [\<lparr>group_vibhag_number = 1, group_matras = [], start_matra = 1,
                       end_matra = - 1\<rparr>]\<rparr>,
          Inr (True, lit ''Grid cleared''))
   \<and> Taal_post_init HUGE_NEGATIVE_TAAL = Inr HUGE_NEGATIVE_TAAL
   \<and> BeatGrid_init HUGE_NEGATIVE_TAAL
       = Inr \<lparr>taal = HUGE_NEGATIVE_TAAL, matras = [],
              vibhags = [\<lparr>group_vibhag_number = 1, group_matras = [], start_matra = 1,
                          end_matra = - (10 ^ int_max_str_digits)\<rparr>]\<rparr>
   \<and> total_matras HUGE_NEGATIVE_TAAL < int (length (py_split (py_strip (lit ''SA''))))
   \<and> fill_from_sequence ascii_db
        \<lparr>taal = HUGE_NEGATIVE_TAAL, matras = [],
         vibhags = [\<lparr>group_vibhag_number = 1, group_matras = [], start_matra = 1,
                     end_matra = - (10 ^ int_max_str_digits)\<rparr>]\<rparr> (lit ''SA'')
       = (\<lparr>taal = HUGE_NEGATIVE_TAAL, matras = [],
           vibhags = [\<lparr>group_vibhag_number = 1, group_matras = [], start_matra = 1,
                       end_matra = - (10 ^ int_max_str_digits)\<rparr>]\<rparr>,
          Inl (ValueError msg_str_limit))"
proof -
  have e: "py_split (py_strip []) = []"
    by (simp add: py_strip_empty py_split_empty)
  have s: "py_split (py_strip (lit ''SA'')) = [lit ''SA'']"
    by (simp add: text_eval)
  have x: "exceeds_str_limit (- (10 ^ int_max_str_digits))"
    by (simp add: exceeds_str_limit_iff)
  have n: "- (10 ^ int_max_str_digits) < (1::int)"
    using limit_large by simp
  have a: "total_matras NEGATIVE_TAAL < int (length (py_split (py_strip [])))"
    by (simp add: e NEGATIVE_TAAL_def)
  have b: "fill_from_sequence ascii_db
        \<lparr>taal = NEGATIVE_TAAL, matras = [],
         vibhags = [\<lparr>group_vibhag_number = 1, group_matras = [], start_matra = 1,
                     end_matra = - 1\<rparr>]\<rparr> []
       = (\<lparr>taal = NEGATIVE_TAAL, matras = [],
           vibhags = [\<lparr>group_vibhag_number = 1, group_matras = [], start_matra = 1,
                       end_matra = - 1\<rparr>]\<rparr>,
          Inr (True, lit ''Grid cleared''))"
    by (simp add: fill_from_sequence_empty e clear_grid_def)
  have c: "total_matras HUGE_NEGATIVE_TAAL < int (length (py_split (py_strip (lit ''SA''))))"
    using n by (simp add: s HUGE_NEGATIVE_TAAL_def)
  have d: "fill_from_sequence ascii_db
        \<lparr>taal = HUGE_NEGATIVE_TAAL, matras = [],
         vibhags = [\<lparr>group_vibhag_number = 1, group_matras = [], start_matra = 1,
                     end_matra = - (10 ^ int_max_str_digits)\<rparr>]\<rparr> (lit ''SA'')
       = (\<lparr>taal = HUGE_NEGATIVE_TAAL, matras = [],
           vibhags = [\<lparr>group_vibhag_number = 1, group_matras = [], start_matra = 1,
                       end_matra = - (10 ^ int_max_str_digits)\<rparr>]\<rparr>,
          Inl (ValueError msg_str_limit))"
    using c x by (subst fill_from_sequence_failure) (simp_all add: s clear_grid_def HUGE_NEGATIVE_TAAL_def)
  from a b c d NEGATIVE_TAAL_grid HUGE_NEGATIVE_TAAL_grid show ?thesis
    by (simp only: simp_thms)
qed

subsection \<open>Parsing one spec\<close>

lemma py_remove_absent: "\<not> py_in pat s \<Longrightarrow> py_remove pat s = s"
  by (induction s) auto

lemma split_on_parts:
  "split_on sep cur s =
     (cur @ takeWhile (\<lambda>c. c \<noteq> sep) s)
       # (if sep \<in> set s then split_on sep [] (tl (dropWhile (\<lambda>c. c \<noteq> sep) s)) else [])"
  by (induction s arbitrary: cur) auto

lemma split_sep_hd: "hd (py_split_sep sep s) = first_part sep s"
  by (subst py_split_sep_def, subst split_on_parts) (simp add: first_part_def)

lemma split_sep_tl:
  "sep \<in> set s \<Longrightarrow> \<exists>rest. tl (py_split_sep sep s) = second_part sep s # rest"
proof -
  assume a: "sep \<in> set s"
  have "split_on sep [] (tl (dropWhile (\<lambda>c. c \<noteq> sep) s))
      = second_part sep s # (if sep \<in> set (tl (dropWhile (\<lambda>c. c \<noteq> sep) s))
          then split_on sep [] (tl (dropWhile (\<lambda>c. c \<noteq> sep) (tl (dropWhile (\<lambda>c. c \<noteq> sep) s))))
          else [])"
    by (subst split_on_parts) (simp add: second_part_def)
  with a show ?thesis
    by (subst py_split_sep_def, subst split_on_parts) simp
qed

lemma count_one_member: "count_list xs x = 1 \<Longrightarrow> x \<in> set xs"
  using count_list_0_iff [of xs x] by auto

lemma parse_note_spec_eq:
  "parse_note_spec db s =
     (let r = remaining_text db s;
          k = py_in (lit ''_K'') (py_upper db (py_strip s));
          t = py_in (lit ''_T'') (py_remove (lit ''_K'') (py_upper db (py_strip s)))
      in if 43 \<in> set r then
           (first_part 43 r, k, t, case py_int db (second_part 43 r) of None \<Rightarrow> 1 | Some n \<Rightarrow> n)
         else if count_list r 45 = 1 then
           (first_part 45 r, k, t,
            case py_int db (second_part 45 r) of None \<Rightarrow> - 1 | Some n \<Rightarrow> - n)
         else (r, k, t, 0))"
proof -
  let ?u = "py_upper db (py_strip s)"
  let ?s1 = "if py_in (lit ''_K'') ?u then py_remove (lit ''_K'') ?u else ?u"
  let ?s2 = "if py_in (lit ''_T'') ?s1 then py_remove (lit ''_T'') ?s1 else ?s1"
  have s1: "?s1 = py_remove (lit ''_K'') ?u" by (simp add: py_remove_absent)
  have s2: "?s2 = remaining_text db s"
    by (simp add: s1 remaining_text_def py_remove_absent)
  show ?thesis
  proof (cases "43 \<in> set (remaining_text db s)")
    case True
    from split_sep_tl [OF True] obtain rest
      where "tl (py_split_sep 43 (remaining_text db s)) = second_part 43 (remaining_text db s) # rest"
      by blast
    with True show ?thesis
      unfolding parse_note_spec_def Let_def s2 by (simp add: s1 split_sep_hd)
  next
    case False
    show ?thesis
    proof (cases "count_list (remaining_text db s) 45 = 1")
      case True
      then have m: "45 \<in> set (remaining_text db s)" by (rule count_one_member)
      from split_sep_tl [OF m] obtain rest
        where "tl (py_split_sep 45 (remaining_text db s)) = second_part 45 (remaining_text db s) # rest"
        by blast
      with True m False show ?thesis
        unfolding parse_note_spec_def Let_def s2 by (simp add: s1 split_sep_hd)
    next
      case c: False
      with False show ?thesis
        unfolding parse_note_spec_def Let_def s2 by (simp add: s1)
    qed
  qed
qed

lemma digit_val_ascii: "48 \<le> c \<Longrightarrow> c \<le> 57 \<Longrightarrow> digit_val db c = Some (c - 48)"
  by (simp add: digit_val_def)

lemma digits_val_digits:
  "list_all (\<lambda>c. 48 \<le> c \<and> c \<le> 57) ds \<Longrightarrow>
   digits_val db acc ds = Some (foldl (\<lambda>a c. 10 * a + (c - 48)) acc ds)"
proof (induction db acc ds rule: digits_val.induct)
  case (1 db acc)
  show ?case by simp
next
  case (2 db acc c)
  then show ?case by (simp add: digit_val_ascii)
next
  case (3 db acc c d ds)
  then have r: "list_all (\<lambda>c. 48 \<le> c \<and> c \<le> 57) (d # ds)" and c: "48 \<le> c" "c \<le> 57"
    by simp_all
  then have ne: "c \<noteq> 95" and dv: "digit_val db c = Some (c - 48)"
    by (simp_all add: digit_val_ascii)
  from "3.IH"(2) [OF ne dv r]
  have "digits_val db (10 * acc + (c - 48)) (d # ds)
      = Some (foldl (\<lambda>a c. 10 * a + (c - 48)) (10 * acc + (c - 48)) (d # ds))" .
  with ne dv show ?case
    by (simp only: digits_val.simps foldl.simps if_False option.case)
qed

lemma strip_unchanged:
  assumes "s \<noteq> []" and "\<not> P (hd s)" and "\<not> P (last s)"
  shows "rev (dropWhile P (rev (dropWhile P s))) = s"
proof -
  from assms(1,2) have a: "dropWhile P s = s" by (cases s) auto
  from assms(1,3) have "dropWhile P (rev s) = rev s"
    by (cases "rev s") (auto simp: hd_rev [symmetric] simp del: hd_rev)
  with a show ?thesis by simp
qed

lemma is_digits_no_underscore: "is_digits ds \<Longrightarrow> filter (\<lambda>c. c \<noteq> 95) ds = ds"
  by (intro filter_True) (auto simp: is_digits_def list_all_iff)

lemma py_int_digits:
  assumes "is_digits ds"
  shows "py_int db ds =
           (if length ds \<le> int_max_str_digits then Some (int (dec_val ds)) else None)"
proof -
  from assms obtain c cs where ds: "ds = c # cs" and c: "48 \<le> c" "c \<le> 57"
    and cs: "list_all (\<lambda>c. 48 \<le> c \<and> c \<le> 57) cs"
    by (cases ds) (auto simp: is_digits_def)
  from assms have "48 \<le> last ds \<and> last ds \<le> 57"
    by (auto simp: is_digits_def list_all_iff)
  with ds c have s: "rev (dropWhile int_space (rev (dropWhile int_space ds))) = ds"
    by (intro strip_unchanged) (auto simp: int_space_def)
  from c have sg: "c \<noteq> 43" "c \<noteq> 45" by simp_all
  from c cs have v: "digit_val db c = Some (c - 48)"
    "digits_val db (c - 48) cs = Some (foldl (\<lambda>a c. 10 * a + (c - 48)) (c - 48) cs)"
    by (simp_all add: digit_val_ascii digits_val_digits)
  have u: "unsigned_val db ds =
      (if int_max_str_digits < length ds then None else Some (int (dec_val ds)))"
    unfolding unsigned_val_def is_digits_no_underscore [OF assms]
    by (simp add: ds v dec_val_def)
  have "py_int db ds = unsigned_val db ds"
    unfolding py_int_def s by (simp add: ds sg)
  with u show ?thesis by auto
qed

lemma py_int_empty: "py_int db [] = None"
  by (simp add: py_int_def)

text \<open>
  C6, as amended. \<open>parse_note_spec\<close> strips and uppercases the text, finds the komal marker
  and removes it, then finds the tivra marker and removes it. If the remaining text holds
  a "+", the base is the text before the first "+" and the octave is the integer that
  \<open>int\<close> reads from the text between the first "+" and the next (or the end), and +1 when
  \<open>int\<close> fails. Only if it holds no "+", and exactly one "-", the base is the text before
  the "-" and the octave is minus the integer read from the text after it, and -1 when
  \<open>int\<close> fails. If it holds no "+" and no "-" or several, the octave is 0 and the whole
  remaining text, dashes included, is the base. A non-empty run of at most 4300 ASCII
  digits is read as its decimal value; a longer run of digits is not read, and neither
  is the empty text.
\<close>

theorem parse_note_spec_octave:
  "parse_note_spec db s =
     (let r = remaining_text db s;
          k = py_in (lit ''_K'') (py_upper db (py_strip s));
          t = py_in (lit ''_T'') (py_remove (lit ''_K'') (py_upper db (py_strip s)))
      in if 43 \<in> set r then
           (first_part 43 r, k, t, case py_int db (second_part 43 r) of None \<Rightarrow> 1 | Some n \<Rightarrow> n)
         else if count_list r 45 = 1 then
           (first_part 45 r, k, t,
            case py_int db (second_part 45 r) of None \<Rightarrow> - 1 | Some n \<Rightarrow> - n)
         else (r, k, t, 0))
   \<and> (is_digits ds \<longrightarrow>
        py_int db ds =
          (if length ds \<le> int_max_str_digits then Some (int (dec_val ds)) else None))
   \<and> py_int db [] = None"
  using parse_note_spec_eq py_int_digits py_int_empty by blast

lemmas spec_eval = parse_note_spec_def text_eval Let_def

theorem parse_note_spec_octave_witness:
  "is_digits (lit ''2'') \<and> py_int ascii_db (lit ''2'') = Some 2
   \<and> is_digits (replicate 4301 49) \<and> py_int ascii_db (replicate 4301 49) = None
   \<and> parse_note_spec ascii_db (lit ''pa+2'') = (lit ''PA'', False, False, 2)
   \<and> parse_note_spec ascii_db (lit ''ga_k-1'') = (lit ''GA'', True, False, - 1)
   \<and> parse_note_spec ascii_db (lit ''NI-1-2'') = (lit ''NI-1-2'', False, False, 0)"
proof -
  have d: "is_digits (lit ''2'')" by (simp add: is_digits_def lit_def)
  have v: "dec_val (lit ''2'') = 2" by (simp add: dec_val_def lit_def)
  have l: "length (lit ''2'') \<le> int_max_str_digits"
    by (simp add: lit_def int_max_str_digits_def)
  note t = parse_note_spec_octave [of ascii_db _ "lit ''2''"]
  from t d v l have i: "py_int ascii_db (lit ''2'') = Some 2" by simp
  have d': "is_digits (replicate 4301 49)"
    by (simp add: is_digits_def list_all_iff)
  have l': "\<not> length (replicate 4301 49 :: pystr) \<le> int_max_str_digits"
    by (simp add: int_max_str_digits_def)
  from parse_note_spec_octave [of ascii_db _ "replicate 4301 49"] d' l'
  have i': "py_int ascii_db (replicate 4301 49) = None" by simp
  have r1: "remaining_text ascii_db (lit ''pa+2'') = lit ''PA+2''"
    by (simp add: remaining_text_def text_eval)
  have r2: "remaining_text ascii_db (lit ''ga_k-1'') = lit ''GA-1''"
    by (simp add: remaining_text_def text_eval)
  have r3: "remaining_text ascii_db (lit ''NI-1-2'') = lit ''NI-1-2''"
    by (simp add: remaining_text_def text_eval)
  have "py_int ascii_db (lit ''1'') = Some 1"
    by (simp add: py_int_def unsigned_val_def digit_val_def int_space_def lit_def
        int_max_str_digits_def)
  with t [of "lit ''pa+2''"] t [of "lit ''ga_k-1''"] t [of "lit ''NI-1-2''"] i
  have "parse_note_spec ascii_db (lit ''pa+2'') = (lit ''PA'', False, False, 2)"
    "parse_note_spec ascii_db (lit ''ga_k-1'') = (lit ''GA'', True, False, - 1)"
    "parse_note_spec ascii_db (lit ''NI-1-2'') = (lit ''NI-1-2'', False, False, 0)"
    by (simp_all add: r1 r2 r3 Let_def)
       (simp_all add: text_eval first_part_def second_part_def)
  with d i d' i' show ?thesis by simp
qed

text \<open>
  C6 as stated fails: with several "-" and a "+" in the remaining text the octave does
  not stay 0 ("SA--+2" gives octave 2), and the dashes need not remain in the base
  ("SA+1--" gives the base "SA" and octave 1).
\<close>

theorem parse_note_spec_dashes_counterexample:
  "1 < count_list (remaining_text ascii_db (lit ''SA--+2'')) 45
   \<and> parse_note_spec ascii_db (lit ''SA--+2'') = (lit ''SA--'', False, False, 2)
   \<and> 1 < count_list (remaining_text ascii_db (lit ''SA+1--'')) 45
   \<and> parse_note_spec ascii_db (lit ''SA+1--'') = (lit ''SA'', False, False, 1)"
  by (simp add: remaining_text_def spec_eval py_int_def unsigned_val_def digit_val_def
      int_space_def ascii_db_def int_max_str_digits_def)

subsection \<open>Texts of the grammar\<close>

lemma valid_base_upper: "B \<in> set valid_bases \<Longrightarrow> \<forall>c \<in> set B. 65 \<le> c \<and> c \<le> 90"
  by (auto simp: valid_bases_def lit_def)

lemma py_upper_append: "py_upper db (xs @ ys) = py_upper db xs @ py_upper db ys"
  by (simp add: py_upper_def)

lemma py_upper_fixed: "\<forall>c \<in> set s. c < 97 \<Longrightarrow> py_upper db s = s"
  by (induction s) (auto simp: py_upper_def upper_char_def)

lemma spellings_upper:
  "b \<in> set (spellings B) \<Longrightarrow> \<forall>c \<in> set B. 65 \<le> c \<and> c \<le> 90 \<Longrightarrow>
   py_upper db b = B \<and> (\<forall>c \<in> set b. 65 \<le> c \<and> c \<le> 122) \<and> (b = [] \<longleftrightarrow> B = [])"
proof (induction B arbitrary: b)
  case Nil
  then show ?case by (simp add: py_upper_def)
next
  case (Cons c cs)
  from Cons.prems(1) obtain v where v: "v \<in> set (spellings cs)" and b: "b = c # v \<or> b = (c + 32) # v"
    by auto
  from Cons.prems(2) have c: "65 \<le> c" "c \<le> 90" and cs: "\<forall>c \<in> set cs. 65 \<le> c \<and> c \<le> 90"
    by simp_all
  from Cons.IH [OF v cs] have iv: "py_upper db v = cs" "\<forall>c \<in> set v. 65 \<le> c \<and> c \<le> 122"
    by simp_all
  from c have "upper_char db c = [c]" "upper_char db (c + 32) = [c]"
    by (simp_all add: upper_char_def)
  with b iv c show ?case by (auto simp: py_upper_def)
qed

lemma py_in_skip: "a \<notin> set xs \<Longrightarrow> py_in (a # p) (xs @ ys) = py_in (a # p) ys"
  by (induction xs) auto

lemma py_in_none: "a \<notin> set ys \<Longrightarrow> \<not> py_in (a # p) ys"
  using py_in_skip [of a ys p "[]"] by simp

lemma py_remove_skip: "a \<notin> set xs \<Longrightarrow> py_remove (a # p) (xs @ ys) = xs @ py_remove (a # p) ys"
  by (induction xs) auto

lemma py_remove_none: "a \<notin> set ys \<Longrightarrow> py_remove (a # p) ys = ys"
  using py_remove_skip [of a ys p "[]"] by simp

lemma is_digits_chars: "is_digits ds \<Longrightarrow> c \<in> set ds \<Longrightarrow> 48 \<le> c \<and> c \<le> 57"
  by (simp add: is_digits_def list_all_iff)

lemma octave_of_suffix_cases:
  assumes "octave_of_suffix sfx = Some oc"
  shows "(sfx = [] \<and> oc = 0)
       \<or> (\<exists>ds. is_digits ds \<and> dec_val ds \<le> 3
              \<and> (sfx = 43 # ds \<and> oc = int (dec_val ds) \<or> sfx = 45 # ds \<and> oc = - int (dec_val ds)))"
  using assms by (cases sfx) (auto simp: octave_of_suffix_def split: if_splits)

lemma markers:
  assumes "95 \<notin> set B" and "95 \<notin> set sfx" and "\<not> (k \<and> t)"
  shows "py_in (lit ''_K'')
           (B @ (if k then lit ''_K'' else if t then lit ''_T'' else []) @ sfx) = k"
    and "py_in (lit ''_T'')
           (py_remove (lit ''_K'')
              (B @ (if k then lit ''_K'' else if t then lit ''_T'' else []) @ sfx)) = t"
    and "py_remove (lit ''_T'')
           (py_remove (lit ''_K'')
              (B @ (if k then lit ''_K'' else if t then lit ''_T'' else []) @ sfx)) = B @ sfx"
  using assms
  by (auto simp: lit_def py_in_skip py_remove_skip py_in_none py_remove_none)

lemma parts_of_suffix:
  assumes "sep \<notin> set B" and "sep \<notin> set ds"
  shows "first_part sep (B @ sep # ds) = B" and "second_part sep (B @ sep # ds) = ds"
proof -
  from assms(1) have p: "\<forall>x \<in> set B. x \<noteq> sep" by auto
  from p show "first_part sep (B @ sep # ds) = B"
    by (simp add: first_part_def)
  from assms(2) have "takeWhile (\<lambda>c. c \<noteq> sep) ds = ds"
    by (simp add: takeWhile_eq_all_conv) auto
  with p show "second_part sep (B @ sep # ds) = ds"
    by (simp add: second_part_def)
qed

lemma grammar_parse:
  assumes B: "B \<in> set valid_bases" and b: "b \<in> set (spellings B)"
    and kt: "\<not> (k \<and> t)" and m: "m \<in> set (modifier_texts k t)"
    and o: "octave_of_suffix sfx = Some oc"
  shows "parse_note_spec db (b @ m @ sfx) =
           (B, k, t,
            if length sfx \<le> Suc int_max_str_digits then oc
            else if hd sfx = 43 then 1 else - 1)"
proof -
  let ?M = "if k then lit ''_K'' else if t then lit ''_T'' else []"
  from B have Bc: "\<forall>c \<in> set B. 65 \<le> c \<and> c \<le> 90" by (rule valid_base_upper)
  from spellings_upper [OF b Bc, of db]
  have bu: "py_upper db b = B" and bc: "\<forall>c \<in> set b. 65 \<le> c \<and> c \<le> 122"
    by simp_all
  from m have mu: "py_upper db m = ?M" and mc: "\<forall>c \<in> set m. 65 \<le> c \<and> c \<le> 122"
    by (auto simp: modifier_texts_def lit_def py_upper_def upper_char_def split: if_splits)
  from octave_of_suffix_cases [OF o]
  have sc: "\<forall>c \<in> set sfx. 43 \<le> c \<and> c \<le> 57"
    by (fastforce dest: is_digits_chars)
  then have su: "py_upper db sfx = sfx"
    by (intro py_upper_fixed) auto
  from bc mc sc have "\<forall>c \<in> set (b @ m @ sfx). \<not> py_isspace c"
    by (auto simp: py_isspace_def)
  then have st: "py_strip (b @ m @ sfx) = b @ m @ sfx" by (rule py_strip_token)
  then have u: "py_upper db (py_strip (b @ m @ sfx)) = B @ ?M @ sfx"
    by (simp only: py_upper_append bu mu su)
  from Bc have nB: "95 \<notin> set B" "43 \<notin> set B" "45 \<notin> set B" by auto
  from sc have nS: "95 \<notin> set sfx" by auto
  note mk = markers [OF nB(1) nS kt]
  have r: "remaining_text db (b @ m @ sfx) = B @ sfx"
    by (simp only: remaining_text_def u mk)
  have pe: "parse_note_spec db (b @ m @ sfx) =
      (if 43 \<in> set (B @ sfx) then
         (first_part 43 (B @ sfx), k, t,
          case py_int db (second_part 43 (B @ sfx)) of None \<Rightarrow> 1 | Some n \<Rightarrow> n)
       else if count_list (B @ sfx) 45 = 1 then
         (first_part 45 (B @ sfx), k, t,
          case py_int db (second_part 45 (B @ sfx)) of None \<Rightarrow> - 1 | Some n \<Rightarrow> - n)
       else (B @ sfx, k, t, 0))"
    by (simp only: parse_note_spec_eq r u mk Let_def)
  from octave_of_suffix_cases [OF o] show ?thesis
  proof (elim disjE conjE exE)
    assume "sfx = []" and "oc = 0"
    with nB pe show ?thesis
      by (simp add: count_list_0_iff)
  next
    fix ds
    assume d: "is_digits ds" and p: "sfx = 43 # ds" "oc = int (dec_val ds)"
    from d have dc: "43 \<notin> set ds"
      by (fastforce dest: is_digits_chars)
    from pe p parts_of_suffix [OF nB(2) dc] show ?thesis
      by (simp add: py_int_digits [OF d])
  next
    fix ds
    assume d: "is_digits ds" and p: "sfx = 45 # ds" "oc = - int (dec_val ds)"
    from d have dc: "43 \<notin> set ds" "45 \<notin> set ds"
      by (fastforce dest: is_digits_chars)+
    from p nB dc have "43 \<notin> set (B @ sfx)" and "count_list (B @ sfx) 45 = 1"
      by (simp_all add: count_list_0_iff)
    with pe have "parse_note_spec db (b @ m @ sfx) =
        (first_part 45 (B @ sfx), k, t,
         case py_int db (second_part 45 (B @ sfx)) of None \<Rightarrow> - 1 | Some n \<Rightarrow> - n)"
      by (simp only: if_False if_True simp_thms)
    with p parts_of_suffix [OF nB(3) dc(2)] show ?thesis
      by (simp add: py_int_digits [OF d])
  qed
qed

text \<open>
  C7, as amended. Take a text of the documented grammar: a valid base name in any mix of
  upper and lower case, then the modifier that stands for the flags (none, or the komal
  marker where the base may be komal, or the tivra marker where the base is MA), then an
  octave suffix that stands for an octave in range (none, or a sign and digits), the
  digits being at most 4300. Parsing it gives the uppercase base, the flags and the
  octave; the note is constructed from what was parsed, it is the note constructed
  directly from those fields, and both render as the same string, the rendering the
  specification describes for those fields.
\<close>

theorem grammar_round_trip:
  assumes "B \<in> set valid_bases" and "b \<in> set (spellings B)"
    and "k \<longrightarrow> B \<in> set komal_bases" and "t \<longrightarrow> B = lit ''MA''" and "\<not> (k \<and> t)"
    and "m \<in> set (modifier_texts k t)"
    and "octave_of_suffix sfx = Some oc"
    and "length sfx \<le> Suc int_max_str_digits"
  shows "parse_note_spec db (b @ m @ sfx) = (B, k, t, oc)
       \<and> (\<exists>n d. note_of_spec db (b @ m @ sfx) = Inr n
               \<and> Note_init db b k t oc = Inr d
               \<and> n = d
               \<and> to_notation n = to_notation d
               \<and> to_notation n
                   = Inr (spec_render \<lparr>base = B, komal = k, tivra = t, octave = oc\<rparr>))"
proof -
  have p: "parse_note_spec db (b @ m @ sfx) = (B, k, t, oc)"
    using grammar_parse [OF assms(1,2,5,6,7), of db] assms(8) by simp
  from assms(1) have Bc: "\<forall>c \<in> set B. 65 \<le> c \<and> c \<le> 90" by (rule valid_base_upper)
  then have Bu: "py_upper db B = B" by (intro py_upper_fixed) auto
  from spellings_upper [OF assms(2) Bc, of db] have bu: "py_upper db b = B" by simp
  from octave_of_suffix_cases [OF assms(7)] have "- 3 \<le> oc \<and> oc \<le> 3" by auto
  with assms have rh: "rules_hold B k t oc" by (simp add: rules_hold_def)
  let ?n = "\<lparr>base = B, komal = k, tivra = t, octave = oc\<rparr>"
  from rh have n: "note_of_spec db (b @ m @ sfx) = Inr ?n"
    by (simp add: note_of_spec_def p Note_init_cases Bu)
  from rh have d: "Note_init db b k t oc = Inr ?n"
    by (simp add: Note_init_cases bu)
  from assms(1) have "to_notation ?n = Inr (spec_render ?n)"
    by (intro to_notation_spec) (simp add: valid_base_nonempty)
  with p n d show ?thesis by simp
qed

theorem grammar_round_trip_witness:
  "lit ''GA'' \<in> set valid_bases \<and> lit ''ga'' \<in> set (spellings (lit ''GA''))
   \<and> lit ''GA'' \<in> set komal_bases \<and> lit ''_k'' \<in> set (modifier_texts True False)
   \<and> octave_of_suffix (lit ''-1'') = Some (- 1)
   \<and> length (lit ''-1'') \<le> Suc int_max_str_digits
   \<and> parse_note_spec ascii_db (lit ''ga_k-1'') = (lit ''GA'', True, False, - 1)
   \<and> (\<exists>n. note_of_spec ascii_db (lit ''ga_k-1'') = Inr n
          \<and> Note_init ascii_db (lit ''ga'') True False (- 1) = Inr n
          \<and> to_notation n = Inr [71, 818, 65, 818, 803])"
proof -
  have h1: "lit ''GA'' \<in> set valid_bases" by (simp add: valid_bases_def)
  have h2: "lit ''ga'' \<in> set (spellings (lit ''GA''))" by (simp add: lit_def)
  have h3: "True \<longrightarrow> lit ''GA'' \<in> set komal_bases" by (simp add: komal_bases_def)
  have h4: "False \<longrightarrow> lit ''GA'' = lit ''MA''" by simp
  have h5: "\<not> (True \<and> False)" by simp
  have h6: "lit ''_k'' \<in> set (modifier_texts True False)" by (simp add: modifier_texts_def)
  have h7: "octave_of_suffix (lit ''-1'') = Some (- 1)"
    by (simp add: octave_of_suffix_def is_digits_def dec_val_def lit_def)
  have h8: "length (lit ''-1'') \<le> Suc int_max_str_digits"
    by (simp add: lit_def int_max_str_digits_def)
  have tx: "lit ''ga'' @ lit ''_k'' @ lit ''-1'' = lit ''ga_k-1''" by (simp add: lit_def)
  have sr: "spec_render \<lparr>base = lit ''GA'', komal = True, tivra = False, octave = - 1\<rparr>
      = [71, 818, 65, 818, 803]"
    by (simp add: spec_render_def COMBINING_UNDERLINE_def COMBINING_DOT_BELOW_def lit_def)
  from grammar_round_trip [OF h1 h2 h3 h4 h5 h6 h7 h8, of ascii_db]
  have "parse_note_spec ascii_db (lit ''ga_k-1'') = (lit ''GA'', True, False, - 1)
   \<and> (\<exists>n. note_of_spec ascii_db (lit ''ga_k-1'') = Inr n
          \<and> Note_init ascii_db (lit ''ga'') True False (- 1) = Inr n
          \<and> to_notation n = Inr [71, 818, 65, 818, 803])"
    by (simp only: tx sr) blast
  with h1 h2 h3 h6 h7 h8 show ?thesis by simp
qed

lemma dec_val_zeros: "foldl (\<lambda>a c. 10 * a + (c - 48)) 0 (replicate n (48::nat)) = (0::nat)"
  by (induction n) simp_all

text \<open>
  C7 as stated fails when the suffix has more than 4300 digits: "SA+" followed by 4300
  zeros and a 3 is a text of the grammar for the octave 3, but \<open>int\<close> does not read
  so many digits, the parser falls back to the octave 1, and the note renders with one
  dot where the note constructed from the fields renders with three.
\<close>

theorem grammar_long_digits_counterexample:
  "lit ''SA'' \<in> set valid_bases \<and> lit ''SA'' \<in> set (spellings (lit ''SA''))
   \<and> [] \<in> set (modifier_texts False False)
   \<and> octave_of_suffix (43 # replicate 4300 48 @ [51]) = Some 3
   \<and> note_of_spec ascii_db (lit ''SA'' @ 43 # replicate 4300 48 @ [51])
       = Inr \<lparr>base = lit ''SA'', komal = False, tivra = False, octave = 1\<rparr>
   \<and> Note_init ascii_db (lit ''SA'') False False 3
       = Inr \<lparr>base = lit ''SA'', komal = False, tivra = False, octave = 3\<rparr>
   \<and> to_notation \<lparr>base = lit ''SA'', komal = False, tivra = False, octave = 1\<rparr>
       = Inr [83, 65, 775]
   \<and> to_notation \<lparr>base = lit ''SA'', komal = False, tivra = False, octave = 3\<rparr>
       = Inr [83, 65, 775, 775, 775]"
proof -
  have h1: "lit ''SA'' \<in> set valid_bases" by (simp add: valid_bases_def)
  have h2: "lit ''SA'' \<in> set (spellings (lit ''SA''))" by (simp add: lit_def)
  have h5: "\<not> (False \<and> False)" by simp
  have h6: "[] \<in> set (modifier_texts False False)" by (simp add: modifier_texts_def)
  have dg: "is_digits (replicate 4300 48 @ [51])"
    by (simp add: is_digits_def list_all_iff)
  have dv: "dec_val (replicate 4300 48 @ [51]) = 3"
    by (simp add: dec_val_def dec_val_zeros)
  from dg dv have h7: "octave_of_suffix (43 # replicate 4300 48 @ [51]) = Some 3"
    by (simp add: octave_of_suffix_def)
  have ln: "\<not> length (43 # replicate 4300 48 @ [51::nat]) \<le> Suc int_max_str_digits"
    by (simp add: int_max_str_digits_def)
  from grammar_parse [OF h1 h2 h5 h6 h7, of ascii_db] ln
  have p: "parse_note_spec ascii_db (lit ''SA'' @ 43 # replicate 4300 48 @ [51])
      = (lit ''SA'', False, False, 1)"
    by simp
  have u: "py_upper ascii_db (lit ''SA'') = lit ''SA''"
    by (simp add: py_upper_def upper_char_def lit_def)
  have r: "rules_hold (lit ''SA'') False False 1" "rules_hold (lit ''SA'') False False 3"
    by (simp_all add: rules_hold_def valid_bases_def)
  have n: "note_of_spec ascii_db (lit ''SA'' @ 43 # replicate 4300 48 @ [51])
       = Inr \<lparr>base = lit ''SA'', komal = False, tivra = False, octave = 1\<rparr>"
    by (simp add: note_of_spec_def p Note_init_cases u r)
  have d: "Note_init ascii_db (lit ''SA'') False False 3
       = Inr \<lparr>base = lit ''SA'', komal = False, tivra = False, octave = 3\<rparr>"
    by (simp add: Note_init_cases u r)
  have t1: "to_notation \<lparr>base = lit ''SA'', komal = False, tivra = False, octave = 1\<rparr>
       = Inr [83, 65, 775]"
    by (simp add: to_notation_def lit_def COMBINING_DOT_ABOVE_def)
  have t3: "to_notation \<lparr>base = lit ''SA'', komal = False, tivra = False, octave = 3\<rparr>
       = Inr [83, 65, 775, 775, 775]"
    by (simp add: to_notation_def lit_def COMBINING_DOT_ABOVE_def numeral_3_eq_3)
  from h1 h2 h6 h7 n d t1 t3 show ?thesis by (simp only: simp_thms)
qed

end
